theory Spec2Isabelle
  imports Complex_Main
begin

section \<open>Python text primitives used by the services\<close>

text \<open>
  Texts are \<^typ>\<open>string\<close>, lists of 8-bit characters, read as ASCII: \<open>str.lower\<close> maps
  \<open>A..Z\<close> to \<open>a..z\<close> and leaves every other character alone, and white space is ASCII
  white space.
\<close>

definition lower_char :: "char \<Rightarrow> char" where
  "lower_char c =
     (let n = (of_char c :: nat) in if 65 \<le> n \<and> n \<le> 90 then char_of (n + 32) else c)"

definition lower :: "string \<Rightarrow> string" where
  "lower s = map lower_char s"

definition is_space :: "char \<Rightarrow> bool" where
  \<comment> \<open>\<open>str.isspace\<close> on ASCII: tab, LF, VT, FF, CR, FS, GS, RS, US and blank\<close>
  "is_space c =
     (let n = (of_char c :: nat) in (9 \<le> n \<and> n \<le> 13) \<or> (28 \<le> n \<and> n \<le> 32))"

definition strip :: "string \<Rightarrow> string" where
  \<comment> \<open>\<open>s.strip()\<close>\<close>
  "strip s = rev (dropWhile is_space (rev (dropWhile is_space s)))"

definition startswith :: "string \<Rightarrow> string \<Rightarrow> bool" where
  \<comment> \<open>\<open>s.startswith(p)\<close>\<close>
  "startswith s p = (take (length p) s = p)"

fun py_in :: "string \<Rightarrow> string \<Rightarrow> bool" where
  \<comment> \<open>\<open>sub in s\<close>\<close>
  "py_in sub [] = (sub = [])"
| "py_in sub (c # cs) = (startswith (c # cs) sub \<or> py_in sub cs)"

fun split_lines :: "string \<Rightarrow> string list" where
  \<comment> \<open>\<open>s.split('\n')\<close>: always at least one piece\<close>
  "split_lines [] = [[]]"
| "split_lines (c # cs) =
     (if c = CHR 0x0A then [] # split_lines cs
      else (case split_lines cs of [] \<Rightarrow> [[c]] | l # ls \<Rightarrow> (c # l) # ls))"

fun join_lines :: "string list \<Rightarrow> string" where
  \<comment> \<open>\<open>'\n'.join(ls)\<close>\<close>
  "join_lines [] = []"
| "join_lines [l] = l"
| "join_lines (l # ls) = l @ CHR 0x0A # join_lines ls"

fun split_ws :: "string \<Rightarrow> string \<Rightarrow> string list" where
  \<comment> \<open>\<open>s.split()\<close>, the word under construction carried along\<close>
  "split_ws cur [] = (if cur = [] then [] else [cur])"
| "split_ws cur (c # cs) =
     (if is_space c then (if cur = [] then split_ws [] cs else cur # split_ws [] cs)
      else split_ws (cur @ [c]) cs)"

definition split_words :: "string \<Rightarrow> string list" where
  "split_words s = split_ws [] s"

function count_sub :: "string \<Rightarrow> string \<Rightarrow> nat" where
  \<comment> \<open>\<open>s.count(sub)\<close>: non-overlapping occurrences, left to right\<close>
  "count_sub s sub =
     (if sub = [] then length s + 1
      else if length s < length sub then 0
      else if startswith s sub then 1 + count_sub (drop (length sub) s) sub
      else count_sub (tl s) sub)"
  by pat_completeness auto
termination
proof (relation "measure (\<lambda>(s, sub). length s)")
  fix s sub :: string
  assume "sub \<noteq> []" and "\<not> length s < length sub"
  then have "0 < length sub" and "length sub \<le> length s" by simp_all
  then have "length s - length sub < length s" and "length s - 1 < length s"
    by linarith+
  then show "((drop (length sub) s, sub), s, sub) \<in> measure (\<lambda>(s, sub). length s)"
    and "((tl s, sub), s, sub) \<in> measure (\<lambda>(s, sub). length s)" by simp_all
qed simp

declare count_sub.simps [simp del]

section \<open>Materiality assessment (\<open>ComparisonService._assess_materiality\<close>)\<close>

record materiality =
  materiality_level :: string
  materiality_score :: int
  assessment_date :: string
  factors_considered :: "string list"

definition materiality_score_of :: "string \<Rightarrow> int" where
  \<comment> \<open>the three \<open>if ... in str(comparison_result).lower()\<close> tests, on the rendered text\<close>
  "materiality_score_of txt =
     (let s0 = 0;
          s1 = (if py_in ''material_weaknesses'' (lower txt) then s0 + 3 else s0);
          s2 = (if py_in ''significant_deficiencies'' (lower txt) then s1 + 2 else s1);
          s3 = (if py_in ''compliance'' (lower txt) then s2 + 2 else s2)
      in s3)"

definition materiality_level_of :: "int \<Rightarrow> string" where
  "materiality_level_of sc =
     (if sc \<ge> 5 then ''High'' else if sc \<ge> 3 then ''Medium'' else ''Low'')"

definition assess_materiality_text :: "string \<Rightarrow> string \<Rightarrow> materiality" where
  \<comment> \<open>\<open>now\<close> is \<open>datetime.utcnow().isoformat()\<close>, \<open>txt\<close> is \<open>str(comparison_result)\<close>\<close>
  "assess_materiality_text now txt =
     \<lparr> materiality_level = materiality_level_of (materiality_score_of txt),
       materiality_score = materiality_score_of txt,
       assessment_date = now,
       factors_considered =
         [''Material weaknesses'', ''Significant deficiencies'', ''Compliance issues''] \<rparr>"

section \<open>Section extraction (\<open>ComparisonService._extract_section\<close>)\<close>

definition section_headers :: "string list" where
  "section_headers = [''summary'', ''scope'', ''findings'', ''recommendations'']"

definition is_new_header :: "string \<Rightarrow> bool" where
  \<comment> \<open>a line that names another section, is not blank and does not start with a blank\<close>
  "is_new_header line =
     ((\<exists>h \<in> set section_headers. py_in h (lower line))
      \<and> strip line \<noteq> [] \<and> \<not> startswith line '' '')"

fun scan_section :: "string \<Rightarrow> bool \<Rightarrow> string list \<Rightarrow> string list \<Rightarrow> string list" where
  \<comment> \<open>the \<open>for line in lines\<close> loop; \<open>in_section\<close> and \<open>section_content\<close> are its state\<close>
  "scan_section nm in_section section_content [] = section_content"
| "scan_section nm in_section section_content (line # rest) =
     (if py_in (lower nm) (lower line) then scan_section nm True section_content rest
      else if in_section then
        (if is_new_header line then section_content
         else (let section_content' = section_content @ [line]
               in if length section_content' > 50 then section_content'
                  else scan_section nm True section_content' rest))
      else scan_section nm False section_content rest)"

definition extract_section :: "string \<Rightarrow> string \<Rightarrow> string option" where
  "extract_section text section_name =
     (let section_content = scan_section section_name False [] (split_lines text)
      in if section_content \<noteq> [] then Some (strip (join_lines section_content)) else None)"

section \<open>Compliance scores (\<open>ReportProcessingService\<close>)\<close>

definition framework_keywords :: "string \<Rightarrow> string list" where
  "framework_keywords framework =
     (if framework = ''SOX'' then
        [''internal control'', ''material weakness'', ''significant deficiency'',
         ''financial reporting'']
      else if framework = ''COSO'' then
        [''control environment'', ''risk assessment'', ''control activities'', ''monitoring'']
      else if framework = ''PCAOB'' then
        [''audit standard'', ''audit opinion'', ''audit evidence'', ''audit risk'']
      else if framework = ''SEC'' then
        [''disclosure'', ''financial statement'', ''filing'', ''regulation'']
      else [])"

definition py_round2 :: "real \<Rightarrow> real" where
  \<comment> \<open>\<open>round(x, 2)\<close> in exact arithmetic: to the nearest hundredth, ties to even\<close>
  "py_round2 x =
     (let y = x * 100; f = \<lfloor>y\<rfloor>; d = y - of_int f
      in of_int (if d < 1/2 then f else if d > 1/2 then f + 1
                 else if even f then f else f + 1) / 100)"

definition keyword_count :: "string \<Rightarrow> string \<Rightarrow> nat" where
  "keyword_count text framework =
     sum_list (map (count_sub (lower text)) (framework_keywords framework))"

definition word_count :: "string \<Rightarrow> nat" where
  "word_count text = length (split_words text)"

definition framework_frequency :: "string \<Rightarrow> string \<Rightarrow> real" where
  "framework_frequency text framework =
     (if word_count text > 0
      then real (keyword_count text framework) / real (word_count text) else 0)"

definition calculate_framework_score :: "string \<Rightarrow> string \<Rightarrow> real" where
  "calculate_framework_score text framework =
     py_round2 (min (framework_frequency text framework * 1000) 100)"

record framework_assessment =
  score :: real
  description :: string
  assessed_at :: string

definition frameworks :: "(string \<times> string) list" where
  "frameworks =
     [(''SOX'', ''Sarbanes-Oxley compliance''),
      (''COSO'', ''COSO framework adherence''),
      (''PCAOB'', ''PCAOB standards compliance''),
      (''SEC'', ''SEC reporting requirements'')]"

definition assess_compliance_scores ::
  "(string \<Rightarrow> string) \<Rightarrow> string \<Rightarrow> (string \<times> framework_assessment) list" where
  \<comment> \<open>\<open>clock f\<close> is the time read while framework \<open>f\<close> is assessed\<close>
  "assess_compliance_scores clock text =
     map (\<lambda>(framework, descr).
            (framework, \<lparr> score = calculate_framework_score text framework,
                          description = descr,
                          assessed_at = clock framework \<rparr>)) frameworks"

section \<open>Double precision arithmetic\<close>

text \<open>
  NumPy computes in IEEE 754 binary64. A value is a real number that is a double, an
  infinity, or not a number; signed zeros are not told apart, which is sound here because
  the only divisor that can be zero is a product of two norms, a positive zero. Every
  operation rounds its exact result to the nearest double, ties to even, with gradual
  underflow and with overflow to infinity.
\<close>

datatype pyfloat = Fin real | PInf | NInf | NaN

definition round_even :: "real \<Rightarrow> int" where
  \<comment> \<open>the nearest integer, ties to the even one\<close>
  "round_even y =
     (let f = \<lfloor>y\<rfloor>; d = y - of_int f
      in if d < 1/2 then f else if d > 1/2 then f + 1 else if even f then f else f + 1)"

definition ulp :: "real \<Rightarrow> real" where
  \<comment> \<open>the spacing of the doubles around \<open>x\<close>: 52 fraction bits, least exponent -1022\<close>
  "ulp x = 2 powr of_int (max \<lfloor>log 2 \<bar>x\<bar>\<rfloor> (- 1022) - 52)"

definition overflow_bound :: real where
  \<comment> \<open>a rounded result of this magnitude or more has no finite double\<close>
  "overflow_bound = 2 ^ 1024"

definition f64 :: "real \<Rightarrow> pyfloat" where
  \<comment> \<open>rounding to double precision\<close>
  "f64 x =
     (if x = 0 then Fin 0
      else (let r = of_int (round_even (x / ulp x)) * ulp x
            in if overflow_bound \<le> r then PInf
               else if r \<le> - overflow_bound then NInf else Fin r))"

fun fmul :: "pyfloat \<Rightarrow> pyfloat \<Rightarrow> pyfloat" where
  "fmul NaN y = NaN"
| "fmul x NaN = NaN"
| "fmul (Fin x) (Fin y) = f64 (x * y)"
| "fmul (Fin x) PInf = (if x = 0 then NaN else if 0 < x then PInf else NInf)"
| "fmul (Fin x) NInf = (if x = 0 then NaN else if 0 < x then NInf else PInf)"
| "fmul PInf (Fin y) = (if y = 0 then NaN else if 0 < y then PInf else NInf)"
| "fmul NInf (Fin y) = (if y = 0 then NaN else if 0 < y then NInf else PInf)"
| "fmul PInf PInf = PInf"
| "fmul PInf NInf = NInf"
| "fmul NInf PInf = NInf"
| "fmul NInf NInf = PInf"

fun fadd :: "pyfloat \<Rightarrow> pyfloat \<Rightarrow> pyfloat" where
  "fadd NaN y = NaN"
| "fadd x NaN = NaN"
| "fadd (Fin x) (Fin y) = f64 (x + y)"
| "fadd (Fin x) PInf = PInf"
| "fadd (Fin x) NInf = NInf"
| "fadd PInf (Fin y) = PInf"
| "fadd NInf (Fin y) = NInf"
| "fadd PInf PInf = PInf"
| "fadd NInf NInf = NInf"
| "fadd PInf NInf = NaN"
| "fadd NInf PInf = NaN"

fun fdiv :: "pyfloat \<Rightarrow> pyfloat \<Rightarrow> pyfloat" where
  \<comment> \<open>a NumPy scalar divided by zero is an infinity or not a number, with a warning\<close>
  "fdiv NaN y = NaN"
| "fdiv x NaN = NaN"
| "fdiv (Fin x) (Fin y) =
     (if y = 0 then (if x = 0 then NaN else if 0 < x then PInf else NInf) else f64 (x / y))"
| "fdiv (Fin x) PInf = Fin 0"
| "fdiv (Fin x) NInf = Fin 0"
| "fdiv PInf (Fin y) = (if 0 \<le> y then PInf else NInf)"
| "fdiv NInf (Fin y) = (if 0 \<le> y then NInf else PInf)"
| "fdiv PInf PInf = NaN"
| "fdiv PInf NInf = NaN"
| "fdiv NInf PInf = NaN"
| "fdiv NInf NInf = NaN"

fun fsqrt :: "pyfloat \<Rightarrow> pyfloat" where
  "fsqrt NaN = NaN"
| "fsqrt (Fin x) = (if x < 0 then NaN else f64 (sqrt x))"
| "fsqrt PInf = PInf"
| "fsqrt NInf = NaN"

section \<open>Embedding similarity (\<open>AIService.calculate_similarity\<close>)\<close>

definition np_dot :: "pyfloat list \<Rightarrow> pyfloat list \<Rightarrow> pyfloat" where
  \<comment> \<open>\<open>np.dot\<close> of two vectors of one length: the rounded products, summed in order\<close>
  "np_dot a b = foldl fadd (Fin 0) (map (\<lambda>(x, y). fmul x y) (zip a b))"

definition np_norm :: "pyfloat list \<Rightarrow> pyfloat" where
  \<comment> \<open>\<open>np.linalg.norm\<close> of a vector: the square root of its dot product with itself\<close>
  "np_norm a = fsqrt (np_dot a a)"

definition calculate_similarity :: "real list \<Rightarrow> real list \<Rightarrow> pyfloat" where
  \<comment> \<open>\<open>np.dot\<close> raises on vectors of different length, and the handler returns 0.0\<close>
  "calculate_similarity embeddings_a embeddings_b =
     (let vec_a = map f64 embeddings_a;
          vec_b = map f64 embeddings_b
      in if length vec_a \<noteq> length vec_b then Fin 0
         else (let dot_product = np_dot vec_a vec_b;
                   norm_a = np_norm vec_a;
                   norm_b = np_norm vec_b;
                   similarity = fdiv dot_product (fmul norm_a norm_b)
               in fdiv (fadd similarity (Fin 1)) (Fin 2)))"

text \<open>
  The cosine similarity of the specification, in exact arithmetic.
\<close>

definition exact_dot :: "real list \<Rightarrow> real list \<Rightarrow> real" where
  "exact_dot a b = sum_list (map (\<lambda>(x, y). x * y) (zip a b))"

definition exact_norm :: "real list \<Rightarrow> real" where
  "exact_norm a = sqrt (sum_list (map (\<lambda>x. x * x) a))"

definition exact_cosine :: "real list \<Rightarrow> real list \<Rightarrow> real" where
  "exact_cosine a b = exact_dot a b / (exact_norm a * exact_norm b)"

section \<open>The language model collaborator (\<open>AIService.compare_reports\<close>)\<close>

datatype json =
    JNull | JBool bool | JInt int | JFloat real | JStr string
  | JList "json list" | JDict "(string \<times> json) list"

datatype py_exception =
    ValueError string
  | AttributeError string string
  | MultipleResultsFound
  | DataIngestionException string

definition quoted :: "string \<Rightarrow> string" where
  "quoted s = CHR 0x27 # s @ [CHR 0x27]"

fun exc_str :: "py_exception \<Rightarrow> string" where
  \<comment> \<open>\<open>str(e)\<close>\<close>
  "exc_str (ValueError m) = m"
| "exc_str (AttributeError ty attr) =
     quoted ty @ '' object has no attribute '' @ quoted attr"
| "exc_str MultipleResultsFound = ''Multiple rows were found when one or none was required''"
| "exc_str (DataIngestionException m) = m"

fun py_type_name :: "json \<Rightarrow> string" where
  "py_type_name JNull = ''NoneType''"
| "py_type_name (JBool b) = ''bool''"
| "py_type_name (JInt i) = ''int''"
| "py_type_name (JFloat x) = ''float''"
| "py_type_name (JStr s) = ''str''"
| "py_type_name (JList xs) = ''list''"
| "py_type_name (JDict kv) = ''dict''"

text \<open>
  One call of the chat completion followed by \<open>json.loads\<close>: the call raises, the answer
  does not parse, or it parses to a JSON value. The string is \<open>str(e)\<close>.
\<close>

datatype llm_reply = CallError string | Unparseable string | Parsed json

text \<open>
  The collaborator is not a function of its prompt, so a model of it is indexed by the
  number of the call as well as by the two truncated reports it is shown.
\<close>

type_synonym llm = "nat \<Rightarrow> string \<Rightarrow> string \<Rightarrow> llm_reply"

definition compare_reports :: "llm \<Rightarrow> nat \<Rightarrow> string \<Rightarrow> string \<Rightarrow> json" where
  "compare_reports model k report_a report_b =
     (let report_a_truncated = take 2000 report_a;
          report_b_truncated = take 2000 report_b
      in case model k report_a_truncated report_b_truncated of
           Parsed comparison \<Rightarrow> comparison
         | CallError m \<Rightarrow> JDict [(''error'', JStr (''Failed to compare reports: '' @ m))]
         | Unparseable m \<Rightarrow> JDict [(''error'', JStr (''Failed to compare reports: '' @ m))])"

section \<open>Section analysis (\<open>ComparisonService._analyze_sections\<close>)\<close>

definition sections :: "string list" where
  "sections =
     [''Executive Summary'', ''Scope and Methodology'', ''Key Findings'',
      ''Material Weaknesses'', ''Significant Deficiencies'', ''Risk Assessment'',
      ''Recommendations'', ''Management Response'']"

definition truthy :: "string option \<Rightarrow> bool" where
  \<comment> \<open>the truth value of an optional text: neither \<open>None\<close> nor empty\<close>
  "truthy t = (case t of None \<Rightarrow> False | Some s \<Rightarrow> s \<noteq> [])"

fun analyze_loop ::
  "llm \<Rightarrow> nat \<Rightarrow> string \<Rightarrow> string \<Rightarrow> (string \<rightharpoonup> json) \<Rightarrow> string list \<Rightarrow> (string \<rightharpoonup> json)" where
  \<comment> \<open>the \<open>for section in sections\<close> loop; \<open>k\<close> numbers the next call of the collaborator\<close>
  "analyze_loop model k source_text target_text section_analysis [] = section_analysis"
| "analyze_loop model k source_text target_text section_analysis (section # rest) =
     (case (extract_section source_text section, extract_section target_text section) of
        (Some source_section, Some target_section) \<Rightarrow>
          if source_section \<noteq> [] \<and> target_section \<noteq> [] then
            analyze_loop model (Suc k) source_text target_text
              (section_analysis(section \<mapsto>
                 compare_reports model k source_section target_section)) rest
          else analyze_loop model k source_text target_text section_analysis rest
      | _ \<Rightarrow> analyze_loop model k source_text target_text section_analysis rest)"

definition analyze_sections :: "llm \<Rightarrow> nat \<Rightarrow> string \<Rightarrow> string \<Rightarrow> (string \<rightharpoonup> json)" where
  "analyze_sections model k source_text target_text =
     analyze_loop model k source_text target_text Map.empty sections"

section \<open>Reports, comparisons and the comparison service\<close>

record audit_report =
  r_id :: nat
  r_company_id :: nat
  r_status :: string
  r_raw_text :: "string option"
  r_embeddings :: "real list option"

record comparison =
  c_id :: nat
  c_company_id :: nat
  source_report_id :: nat
  target_report_id :: nat
  comparison_type :: string
  c_status :: string
  similarity_score :: "pyfloat option"
  key_differences :: "json option"
  risk_alignment :: "json option"
  compliance_gaps :: "json option"
  recommendations :: "json option"
  section_comparisons :: "(string \<rightharpoonup> json) option"
  materiality_assessment :: "materiality option"
  completed_at :: "string option"

record database =
  reports :: "audit_report list"
  comparisons :: "comparison list"

text \<open>
  What the service is given from outside: the language model, Python's rendering
  \<open>str\<close> of a JSON value, and the clock (\<open>utcnow n\<close> is the n-th reading).
\<close>

record services =
  language_model :: llm
  py_str :: "json \<Rightarrow> string"
  utcnow :: "nat \<Rightarrow> string"

record comparison_outcome =
  o_comparison_id :: nat
  o_status :: string
  o_similarity_score :: pyfloat
  o_results :: json

definition get_report :: "database \<Rightarrow> nat \<Rightarrow> audit_report option" where
  \<comment> \<open>\<open>db.query(AuditReport).filter(AuditReport.id == i).first()\<close>\<close>
  "get_report db i = find (\<lambda>r. r_id r = i) (reports db)"

definition get_comparison :: "database \<Rightarrow> nat \<Rightarrow> comparison option" where
  "get_comparison db i = find (\<lambda>c. c_id c = i) (comparisons db)"

fun update_first :: "('a \<Rightarrow> bool) \<Rightarrow> ('a \<Rightarrow> 'a) \<Rightarrow> 'a list \<Rightarrow> 'a list" where
  "update_first P f [] = []"
| "update_first P f (x # xs) = (if P x then f x # xs else x # update_first P f xs)"

definition set_comparison :: "database \<Rightarrow> nat \<Rightarrow> (comparison \<Rightarrow> comparison) \<Rightarrow> database" where
  \<comment> \<open>attribute assignments on the row fetched by id, then \<open>db.commit()\<close>\<close>
  "set_comparison db i f = db\<lparr>comparisons := update_first (\<lambda>c. c_id c = i) f (comparisons db)\<rparr>"

definition create_comparison ::
  "database \<Rightarrow> nat \<Rightarrow> nat \<Rightarrow> nat \<Rightarrow> nat \<Rightarrow> string \<Rightarrow> (py_exception + comparison) \<times> database" where
  \<comment> \<open>\<open>new_id\<close> is the primary key the column default \<open>uuid.uuid4\<close> draws\<close>
  "create_comparison db new_id company source target ctype =
     (case (get_report db source, get_report db target) of
        (Some source_report, Some target_report) \<Rightarrow>
          (let comparison =
                 \<lparr> c_id = new_id, c_company_id = company, source_report_id = source,
                   target_report_id = target, comparison_type = ctype,
                   c_status = ''pending'', similarity_score = None, key_differences = None,
                   risk_alignment = None, compliance_gaps = None, recommendations = None,
                   section_comparisons = None, materiality_assessment = None,
                   completed_at = None \<rparr>
           in (Inr comparison, db\<lparr>comparisons := comparisons db @ [comparison]\<rparr>))
      | _ \<Rightarrow>
          (Inl (ValueError (''Failed to create comparison: ''
                  @ exc_str (ValueError ''One or both reports not found''))), db))"

definition dict_get :: "(string \<times> json) list \<Rightarrow> string \<Rightarrow> json \<Rightarrow> json" where
  \<comment> \<open>\<open>d.get(k, default)\<close>\<close>
  "dict_get d k dflt = (case map_of d k of None \<Rightarrow> dflt | Some v \<Rightarrow> v)"

definition assess_materiality :: "services \<Rightarrow> json \<Rightarrow> materiality" where
  "assess_materiality sv comparison_result =
     assess_materiality_text (utcnow sv 1) (py_str sv comparison_result)"

definition comparison_failed ::
  "database \<Rightarrow> nat \<Rightarrow> py_exception \<Rightarrow> (py_exception + comparison_outcome) \<times> database" where
  \<comment> \<open>the \<open>except Exception as e\<close> handler of \<open>process_comparison\<close>\<close>
  "comparison_failed db i e =
     (Inl (ValueError (''Failed to process comparison: '' @ exc_str e)),
      set_comparison db i (\<lambda>c. c\<lparr>c_status := ''error''\<rparr>))"

definition store_results ::
  "services \<Rightarrow> database \<Rightarrow> nat \<Rightarrow> string \<Rightarrow> string \<Rightarrow> pyfloat \<Rightarrow> json
     \<Rightarrow> (py_exception + comparison_outcome) \<times> database" where
  \<comment> \<open>lines 88 to 112: everything after the similarity has been computed\<close>
  "store_results sv db i source_text target_text sim comparison_result =
     (let db2 = set_comparison db i (\<lambda>c. c\<lparr>similarity_score := Some sim\<rparr>)
      in case comparison_result of
           JDict d \<Rightarrow>
             (Inr \<lparr> o_comparison_id = i, o_status = ''completed'',
                    o_similarity_score = sim, o_results = comparison_result \<rparr>,
              set_comparison db2 i (\<lambda>c. c
                \<lparr> key_differences := Some (dict_get d ''key_differences'' (JDict [])),
                  risk_alignment := Some (dict_get d ''risk_alignment'' (JDict [])),
                  compliance_gaps := Some (dict_get d ''compliance_gaps'' (JDict [])),
                  recommendations := Some (dict_get d ''recommendations'' (JDict [])),
                  c_status := ''completed'',
                  completed_at := Some (utcnow sv 0),
                  section_comparisons :=
                    Some (analyze_sections (language_model sv) 1 source_text target_text),
                  materiality_assessment := Some (assess_materiality sv comparison_result) \<rparr>))
         | _ \<Rightarrow> comparison_failed db2 i (AttributeError (py_type_name comparison_result) ''get''))"

definition has_embeddings :: "real list option \<Rightarrow> bool" where
  \<comment> \<open>the truth value of the \<open>embeddings\<close> column: neither \<open>None\<close> nor an empty list\<close>
  "has_embeddings e = (case e of None \<Rightarrow> False | Some v \<Rightarrow> v \<noteq> [])"

definition embedding_similarity :: "audit_report \<Rightarrow> audit_report \<Rightarrow> pyfloat" where
  \<comment> \<open>lines 81 to 86: \<open>similarity_score\<close> starts as 0.0\<close>
  "embedding_similarity source_report target_report =
     (if has_embeddings (r_embeddings source_report)
         \<and> has_embeddings (r_embeddings target_report)
      then calculate_similarity (the (r_embeddings source_report))
             (the (r_embeddings target_report))
      else Fin 0)"

definition process_comparison ::
  "services \<Rightarrow> database \<Rightarrow> nat \<Rightarrow> (py_exception + comparison_outcome) \<times> database" where
  "process_comparison sv db i =
     (case get_comparison db i of
        None \<Rightarrow> comparison_failed db i (ValueError ''Comparison not found'')
      | Some comparison \<Rightarrow>
          (let db1 = set_comparison db i (\<lambda>c. c\<lparr>c_status := ''processing''\<rparr>)
           in case get_report db1 (source_report_id comparison) of
                None \<Rightarrow> comparison_failed db1 i (AttributeError ''NoneType'' ''raw_text'')
              | Some source_report \<Rightarrow>
                  if \<not> truthy (r_raw_text source_report) then
                    comparison_failed db1 i
                      (ValueError ''Reports must be processed before comparison'')
                  else
                    (case get_report db1 (target_report_id comparison) of
                       None \<Rightarrow> comparison_failed db1 i (AttributeError ''NoneType'' ''raw_text'')
                     | Some target_report \<Rightarrow>
                         if \<not> truthy (r_raw_text target_report) then
                           comparison_failed db1 i
                             (ValueError ''Reports must be processed before comparison'')
                         else
                           (let source_text = the (r_raw_text source_report);
                                target_text = the (r_raw_text target_report);
                                comparison_result =
                                  compare_reports (language_model sv) 0 source_text target_text
                            in store_results sv db1 i source_text target_text
                                 (embedding_similarity source_report target_report)
                                 comparison_result))))"

section \<open>Uploads (\<open>AuditService.process_upload\<close>, \<open>DocumentProcessor.calculate_hash\<close>)\<close>

type_synonym bytes = string

record upload_file =
  uf_filename :: string
  uf_content_type :: string
  uf_size :: "nat option"
  uf_content :: bytes

record stored_report =
  ar_id :: nat
  ar_company_id :: string
  ar_title :: string
  ar_report_type :: string
  ar_file_path :: string
  ar_file_name :: string
  ar_file_size :: nat
  ar_content_hash :: string
  ar_extraction_status :: string

record upload_state =
  stored_reports :: "stored_report list"
  upload_dir :: "string \<rightharpoonup> bytes"

text \<open>
  Library functions the service calls: \<open>hashlib.sha256(...).hexdigest()\<close>, the title
  made from a file name, and the configured upload path.
\<close>

record ingest_lib =
  sha256 :: "bytes \<Rightarrow> string"
  extract_title :: "string \<Rightarrow> string"
  upload_path :: string

definition allowed_types :: "string list" where
  "allowed_types =
     [''application/pdf'',
      ''application/vnd.openxmlformats-officedocument.wordprocessingml.document'',
      ''text/plain'']"

definition max_size :: nat where
  "max_size = 50 * 1024 * 1024"

definition validate_file :: "upload_file \<Rightarrow> bool" where
  "validate_file file =
     (uf_content_type file \<in> set allowed_types
      \<and> (case uf_size file of None \<Rightarrow> False | Some n \<Rightarrow> n \<le> max_size))"

definition check_duplicate :: "upload_state \<Rightarrow> string \<Rightarrow> py_exception + stored_report option" where
  \<comment> \<open>\<open>scalar_one_or_none()\<close>: no row, the one row, or an error on several rows\<close>
  "check_duplicate st content_hash =
     (case filter (\<lambda>r. ar_content_hash r = content_hash) (stored_reports st) of
        [] \<Rightarrow> Inr None
      | [r] \<Rightarrow> Inr (Some r)
      | _ \<Rightarrow> Inl MultipleResultsFound)"

definition save_file :: "ingest_lib \<Rightarrow> upload_state \<Rightarrow> upload_file \<Rightarrow> bytes \<Rightarrow> string \<times> upload_state" where
  "save_file lib st file content =
     (let file_path = upload_path lib @ ''/'' @ uf_filename file
      in (file_path, st\<lparr>upload_dir := (upload_dir st)(file_path \<mapsto> content)\<rparr>))"

definition upload_failed ::
  "upload_state \<Rightarrow> py_exception \<Rightarrow> (py_exception + stored_report) \<times> upload_state" where
  \<comment> \<open>the handler of \<open>process_upload\<close>: roll back, raise \<open>DataIngestionException\<close>\<close>
  "upload_failed st e =
     (Inl (DataIngestionException (''Failed to process upload: '' @ exc_str e)), st)"

definition process_upload ::
  "ingest_lib \<Rightarrow> upload_state \<Rightarrow> nat \<Rightarrow> upload_file \<Rightarrow> string \<Rightarrow> string
     \<Rightarrow> (py_exception + stored_report) \<times> upload_state" where
  \<comment> \<open>\<open>new_id\<close> is the primary key of the row that may be added\<close>
  "process_upload lib st new_id file report_type company =
     (if \<not> validate_file file then
        upload_failed st (DataIngestionException ''Invalid file format or size'')
      else
        (let content = uf_content file;
             content_hash = sha256 lib content
         in case check_duplicate st content_hash of
              Inl e \<Rightarrow> upload_failed st e
            | Inr (Some existing) \<Rightarrow> (Inr existing, st)
            | Inr None \<Rightarrow>
                (let (file_path, st1) = save_file lib st file content;
                     audit_report =
                       \<lparr> ar_id = new_id, ar_company_id = company,
                         ar_title = extract_title lib (uf_filename file),
                         ar_report_type = report_type, ar_file_path = file_path,
                         ar_file_name = uf_filename file, ar_file_size = length content,
                         ar_content_hash = content_hash,
                         ar_extraction_status = ''pending'' \<rparr>
                 in (Inr audit_report,
                     st1\<lparr>stored_reports := stored_reports st1 @ [audit_report]\<rparr>))))"

function read_chunks :: "nat \<Rightarrow> bytes \<Rightarrow> bytes list" where
  \<comment> \<open>\<open>iter(lambda: f.read(n), b'')\<close>: the chunks read until the first empty one\<close>
  "read_chunks n data =
     (if take n data = [] then [] else take n data # read_chunks n (drop n data))"
  by pat_completeness auto
termination
proof (relation "measure (\<lambda>(n, data). length data)")
  fix n :: nat and data :: bytes
  assume "take n data \<noteq> []"
  then have "0 < n" and "0 < length data" by auto
  then have "length data - n < length data" by linarith
  then show "((n, drop n data), n, data) \<in> measure (\<lambda>(n, data). length data)" by simp
qed simp

declare read_chunks.simps [simp del]

definition calculate_hash :: "ingest_lib \<Rightarrow> bytes \<Rightarrow> string" where
  \<comment> \<open>a hash object digests the concatenation of the chunks it was updated with\<close>
  "calculate_hash lib data = sha256 lib (foldl (@) [] (read_chunks 4096 data))"

definition unique_fingerprints :: "upload_state \<Rightarrow> bool" where
  \<comment> \<open>at most one stored report for each fingerprint\<close>
  "unique_fingerprints st = distinct (map ar_content_hash (stored_reports st))"

section \<open>Sample data\<close>

text \<open>
  Three reports: one just uploaded, without text; one processed, without embeddings; one
  processed, with embeddings. The sample collaborator is unreachable on every call.
\<close>

definition one_filing_in_thirty_words :: string where
  \<comment> \<open>a sample text: the word \<open>filing\<close> followed by 29 times the word \<open>a\<close>\<close>
  "one_filing_in_thirty_words = ''filing'' @ concat (replicate 29 '' a'')"

definition uploaded_report :: audit_report where
  "uploaded_report =
     \<lparr> r_id = 1, r_company_id = 1, r_status = ''uploaded'', r_raw_text = None,
       r_embeddings = None \<rparr>"

definition processed_report :: audit_report where
  "processed_report =
     \<lparr> r_id = 2, r_company_id = 1, r_status = ''processed'',
       r_raw_text = Some (join_lines [''Executive Summary'', ''revenue grew'']),
       r_embeddings = None \<rparr>"

definition embedded_report :: audit_report where
  "embedded_report =
     \<lparr> r_id = 3, r_company_id = 1, r_status = ''processed'',
       r_raw_text = Some (join_lines [''Executive Summary'', ''revenue fell'']),
       r_embeddings = Some [1, 0] \<rparr>"

definition sample_db :: database where
  "sample_db =
     \<lparr> reports = [uploaded_report, processed_report, embedded_report], comparisons = [] \<rparr>"

definition sample_comparison :: comparison where
  "sample_comparison =
     \<lparr> c_id = 7, c_company_id = 1, source_report_id = 2, target_report_id = 3,
       comparison_type = ''internal_vs_sec'', c_status = ''pending'',
       similarity_score = None, key_differences = None, risk_alignment = None,
       compliance_gaps = None, recommendations = None, section_comparisons = None,
       materiality_assessment = None, completed_at = None \<rparr>"

definition comparison_db :: database where
  "comparison_db = sample_db\<lparr>comparisons := [sample_comparison]\<rparr>"

definition unreachable_model :: llm where
  "unreachable_model k report_a report_b = CallError ''timeout''"

definition sample_services :: services where
  "sample_services =
     \<lparr> language_model = unreachable_model,
       py_str = (\<lambda>j. ''{'error': 'Failed to compare reports: timeout'}''),
       utcnow = (\<lambda>n. ''2024-01-01T00:00:00'') \<rparr>"

definition sample_lib :: ingest_lib where
  \<comment> \<open>a stand-in digest, enough to run an upload\<close>
  "sample_lib =
     \<lparr> sha256 = (\<lambda>b. ''digest of '' @ b), extract_title = (\<lambda>n. n),
       upload_path = ''uploads'' \<rparr>"

definition sample_pdf :: upload_file where
  "sample_pdf =
     \<lparr> uf_filename = ''q1.pdf'', uf_content_type = ''application/pdf'', uf_size = Some 3,
       uf_content = ''abc'' \<rparr>"

definition sample_pdf_again :: upload_file where
  "sample_pdf_again =
     \<lparr> uf_filename = ''q1-copy.pdf'', uf_content_type = ''application/pdf'', uf_size = Some 3,
       uf_content = ''abc'' \<rparr>"

definition empty_store :: upload_state where
  "empty_store = \<lparr> stored_reports = [], upload_dir = Map.empty \<rparr>"

definition stored_q1 :: stored_report where
  \<comment> \<open>the row of \<open>sample_pdf\<close>, after its text has been extracted\<close>
  "stored_q1 =
     \<lparr> ar_id = 1, ar_company_id = ''acme'', ar_title = ''q1.pdf'',
       ar_report_type = ''internal'', ar_file_path = ''uploads/q1.pdf'',
       ar_file_name = ''q1.pdf'', ar_file_size = 3, ar_content_hash = ''digest of abc'',
       ar_extraction_status = ''completed'' \<rparr>"

definition store_with_q1 :: upload_state where
  "store_with_q1 =
     \<lparr> stored_reports = [stored_q1], upload_dir = [''uploads/q1.pdf'' \<mapsto> ''abc''] \<rparr>"

definition half_processed_report :: audit_report where
  \<comment> \<open>a report as \<open>process_uploaded_report\<close> first stores it: text present, still processing\<close>
  "half_processed_report =
     \<lparr> r_id = 4, r_company_id = 1, r_status = ''processing'',
       r_raw_text = Some (join_lines [''Executive Summary'', ''revenue flat'']),
       r_embeddings = None \<rparr>"

definition early_comparison :: comparison where
  "early_comparison =
     \<lparr> c_id = 8, c_company_id = 1, source_report_id = 4, target_report_id = 2,
       comparison_type = ''internal_vs_sec'', c_status = ''pending'',
       similarity_score = None, key_differences = None, risk_alignment = None,
       compliance_gaps = None, recommendations = None, section_comparisons = None,
       materiality_assessment = None, completed_at = None \<rparr>"

definition early_db :: database where
  "early_db =
     \<lparr> reports = [half_processed_report, processed_report],
       comparisons = [early_comparison] \<rparr>"

definition answering_model :: llm where
  "answering_model k report_a report_b = Parsed (JDict [(''key_differences'', JList [])])"

definition answering_services :: services where
  "answering_services =
     \<lparr> language_model = answering_model,
       py_str = (\<lambda>j. ''{'key_differences': []}''),
       utcnow = (\<lambda>n. ''2024-01-01T00:00:00'') \<rparr>"

definition stored_q2 :: stored_report where
  \<comment> \<open>the row of another file\<close>
  "stored_q2 =
     \<lparr> ar_id = 2, ar_company_id = ''acme'', ar_title = ''q2.pdf'',
       ar_report_type = ''internal'', ar_file_path = ''uploads/q2.pdf'',
       ar_file_name = ''q2.pdf'', ar_file_size = 3, ar_content_hash = ''digest of xyz'',
       ar_extraction_status = ''completed'' \<rparr>"

definition store_with_q2_q1 :: upload_state where
  "store_with_q2_q1 =
     \<lparr> stored_reports = [stored_q2, stored_q1],
       upload_dir = [''uploads/q2.pdf'' \<mapsto> ''xyz'', ''uploads/q1.pdf'' \<mapsto> ''abc''] \<rparr>"

definition stored_q1_twin :: stored_report where
  \<comment> \<open>a second row with the fingerprint of \<open>stored_q1\<close>\<close>
  "stored_q1_twin =
     \<lparr> ar_id = 3, ar_company_id = ''acme'', ar_title = ''q1 bis.pdf'',
       ar_report_type = ''internal'', ar_file_path = ''uploads/q1-bis.pdf'',
       ar_file_name = ''q1-bis.pdf'', ar_file_size = 3, ar_content_hash = ''digest of abc'',
       ar_extraction_status = ''completed'' \<rparr>"

definition store_with_twins :: upload_state where
  "store_with_twins =
     \<lparr> stored_reports = [stored_q1, stored_q1_twin],
       upload_dir = [''uploads/q1.pdf'' \<mapsto> ''abc'', ''uploads/q1-bis.pdf'' \<mapsto> ''abc''] \<rparr>"

section \<open>Properties of the similarity score\<close>

subsection \<open>In exact arithmetic the rescaled cosine lies between 0 and 1\<close>

lemma two_term_bound:
  fixes x y D A B :: real
  assumes D: "D\<^sup>2 \<le> A * B" and A: "0 \<le> A" and B: "0 \<le> B"
  shows "2 * (x * y * D) \<le> x\<^sup>2 * B + y\<^sup>2 * A"
proof -
  have "(2 * (x * y * D))\<^sup>2 = 4 * (x\<^sup>2 * y\<^sup>2) * D\<^sup>2"
    by (simp add: power2_eq_square)
  also have "\<dots> \<le> 4 * (x\<^sup>2 * y\<^sup>2) * (A * B)"
    using D by (intro mult_left_mono) simp_all
  also have "\<dots> \<le> (x\<^sup>2 * B + y\<^sup>2 * A)\<^sup>2"
  proof -
    have "0 \<le> (x\<^sup>2 * B - y\<^sup>2 * A)\<^sup>2" by simp
    then show ?thesis by (simp add: power2_eq_square algebra_simps)
  qed
  finally have "(2 * (x * y * D))\<^sup>2 \<le> (x\<^sup>2 * B + y\<^sup>2 * A)\<^sup>2" .
  moreover have "0 \<le> x\<^sup>2 * B + y\<^sup>2 * A" using A B by simp
  ultimately show ?thesis by (rule power2_le_imp_le)
qed

lemma sum_squares_nonneg: "0 \<le> sum_list (map (\<lambda>x. x * x) (a :: real list))"
  by (induction a) simp_all

lemma exact_dot_square_le:
  "length a = length b \<Longrightarrow>
   (exact_dot a b)\<^sup>2 \<le> sum_list (map (\<lambda>x. x * x) a) * sum_list (map (\<lambda>x. x * x) b)"
proof (induction a b rule: list_induct2)
  case Nil
  then show ?case by (simp add: exact_dot_def)
next
  case (Cons x xs y ys)
  let ?D = "exact_dot xs ys"
  let ?A = "sum_list (map (\<lambda>x. x * x) xs)"
  let ?B = "sum_list (map (\<lambda>x. x * x) ys)"
  have step: "2 * (x * y * ?D) \<le> x\<^sup>2 * ?B + y\<^sup>2 * ?A"
    by (rule two_term_bound [OF Cons.IH sum_squares_nonneg sum_squares_nonneg])
  have "(exact_dot (x # xs) (y # ys))\<^sup>2 = (x * y)\<^sup>2 + 2 * (x * y * ?D) + ?D\<^sup>2"
    by (simp add: exact_dot_def power2_eq_square algebra_simps)
  also have "\<dots> \<le> (x * y)\<^sup>2 + (x\<^sup>2 * ?B + y\<^sup>2 * ?A) + ?A * ?B"
    using step Cons.IH by linarith
  also have "\<dots> = (x * x + ?A) * (y * y + ?B)"
    by (simp add: power2_eq_square algebra_simps)
  finally show ?case by simp
qed

lemma abs_exact_dot_le_norms:
  assumes "length a = length b"
  shows "\<bar>exact_dot a b\<bar> \<le> exact_norm a * exact_norm b"
proof -
  have "(exact_dot a b)\<^sup>2 \<le> (exact_norm a * exact_norm b)\<^sup>2"
    using exact_dot_square_le [OF assms]
    by (simp add: exact_norm_def power_mult_distrib sum_squares_nonneg)
  moreover have "0 \<le> exact_norm a * exact_norm b"
    by (simp add: exact_norm_def sum_squares_nonneg)
  ultimately have "\<bar>exact_dot a b\<bar> \<le> \<bar>exact_norm a * exact_norm b\<bar>"
    by (simp only: abs_le_square_iff)
  with \<open>0 \<le> exact_norm a * exact_norm b\<close> show ?thesis by simp
qed

lemma exact_cosine_bounds:
  assumes "length a = length b" and "exact_norm a \<noteq> 0" and "exact_norm b \<noteq> 0"
  shows "- 1 \<le> exact_cosine a b \<and> exact_cosine a b \<le> 1"
proof -
  have pos: "0 < exact_norm a * exact_norm b"
    using assms(2,3) by (simp add: exact_norm_def sum_squares_nonneg less_le)
  have "\<bar>exact_cosine a b\<bar> \<le> 1"
    using abs_exact_dot_le_norms [OF assms(1)] pos by (simp add: exact_cosine_def)
  then show ?thesis by linarith
qed

lemma exact_rescaled_cosine_bounds:
  assumes "length a = length b" and "exact_norm a \<noteq> 0" and "exact_norm b \<noteq> 0"
  shows "0 \<le> (exact_cosine a b + 1) / 2 \<and> (exact_cosine a b + 1) / 2 \<le> 1"
  using exact_cosine_bounds [OF assms] by simp

lemma exact_value_of_opposite_vectors:
  "(exact_cosine [2, 3] [- 2, - 3] + 1) / 2 = 0"
  by (simp add: exact_cosine_def exact_dot_def exact_norm_def)

subsection \<open>Rounding to double precision\<close>

lemma round_even_of_int [simp]: "round_even (of_int n) = n"
  by (simp add: round_even_def)

lemma round_even_numeral [simp]:
  "round_even (numeral k) = numeral k" "round_even (- numeral k) = - numeral k"
  using round_even_of_int [of "numeral k"] round_even_of_int [of "- numeral k"] by simp_all

lemma round_even_between:
  assumes "of_int n - 1/2 < y" and "y < of_int n + 1/2"
  shows "round_even y = n"
proof (cases "of_int n \<le> y")
  case True
  have "y < of_int n + 1" using assms(2) by linarith
  with True have "\<lfloor>y\<rfloor> = n" by (rule floor_unique)
  with assms(2) show ?thesis by (simp add: round_even_def Let_def)
next
  case False
  have a: "of_int (n - 1) \<le> y" using assms(1) by simp
  have b: "y < of_int (n - 1) + 1" using False by simp
  from a b have "\<lfloor>y\<rfloor> = n - 1" by (rule floor_unique)
  with assms(1) False show ?thesis by (simp add: round_even_def Let_def)
qed

lemma round_even_ge:
  assumes "of_int k \<le> y"
  shows "k \<le> round_even y"
proof -
  from assms have "k \<le> \<lfloor>y\<rfloor>" by (simp add: le_floor_iff)
  then show ?thesis by (simp add: round_even_def Let_def)
qed

lemma round_even_le:
  assumes "y \<le> of_int k"
  shows "round_even y \<le> k"
proof (cases "\<lfloor>y\<rfloor> < k")
  case True
  then show ?thesis by (simp add: round_even_def Let_def)
next
  case False
  moreover have "\<lfloor>y\<rfloor> \<le> k" using assms by (simp add: floor_le_iff)
  ultimately have f: "\<lfloor>y\<rfloor> = k" by simp
  then have "of_int k \<le> y" by (metis of_int_floor_le)
  with assms have "y = of_int k" by simp
  then show ?thesis by simp
qed

lemma ulp_pos: "0 < ulp x"
  by (simp add: ulp_def)

lemma ulp_eq:
  fixes e :: int
  assumes "2 powr of_int e \<le> \<bar>x\<bar>" and "\<bar>x\<bar> < 2 * 2 powr of_int e" and "- 1022 \<le> e"
  shows "ulp x = 2 powr of_int (e - 52)"
proof -
  have "(0::real) < 2 powr of_int e" by simp
  with assms(1) have pos: "0 < \<bar>x\<bar>" by linarith
  have "2 * 2 powr of_int e = (2::real) powr (of_int e + 1)" by (simp add: powr_add)
  with assms(2) have up: "\<bar>x\<bar> < 2 powr (of_int e + 1)" by simp
  have "of_int e \<le> log 2 \<bar>x\<bar>" using assms(1) pos by (simp add: le_log_iff)
  moreover have "log 2 \<bar>x\<bar> < of_int e + 1" using up pos by (simp add: log_less_iff)
  ultimately have "\<lfloor>log 2 \<bar>x\<bar>\<rfloor> = e" by (rule floor_unique)
  with assms(3) show ?thesis by (simp add: ulp_def max_def)
qed

lemma two_52_ulp: "(2::real) ^ 52 * 2 powr of_int (e - 52) = 2 powr of_int e"
  using powr_add [of "2::real" 52 "of_int (e - 52)"] by simp

lemma f64_eval:
  fixes e n :: int
  assumes lo: "2 powr of_int e \<le> \<bar>x\<bar>" and hi: "\<bar>x\<bar> < 2 * 2 powr of_int e"
    and e: "- 1022 \<le> e" "e \<le> 1022"
    and n: "round_even (x / 2 powr of_int (e - 52)) = n"
  shows "f64 x = Fin (of_int n * 2 powr of_int (e - 52))"
proof -
  let ?u = "(2::real) powr of_int (e - 52)"
  have u: "ulp x = ?u" by (rule ulp_eq [OF lo hi e(1)])
  have upos: "0 < ?u" by simp
  have "(0::real) < 2 powr of_int e" by simp
  with lo have "x \<noteq> 0" by auto
  have "\<bar>x\<bar> / ?u \<le> (2 * 2 powr of_int e) / ?u"
    using hi upos by (intro divide_right_mono) simp_all
  also have "(2 * 2 powr of_int e) / ?u = 2 * 2 ^ 52"
    using two_52_ulp [of e] upos by (simp add: field_simps)
  finally have b: "\<bar>x / ?u\<bar> \<le> of_int (2 * 2 ^ 52)" by simp
  have "x / ?u \<le> of_int (2 * 2 ^ 52)" by (rule abs_le_D1 [OF b])
  moreover have "- (x / ?u) \<le> of_int (2 * 2 ^ 52)" by (rule abs_le_D2 [OF b])
  then have "of_int (- (2 * 2 ^ 52)) \<le> x / ?u" by simp
  ultimately have "x / ?u \<le> of_int (2 * 2 ^ 52)" and "of_int (- (2 * 2 ^ 52)) \<le> x / ?u"
    by blast+
  then have "n \<le> 2 * 2 ^ 52" and "- (2 * 2 ^ 52) \<le> n"
    using round_even_le round_even_ge n by blast+
  then have "\<bar>real_of_int n\<bar> \<le> 2 * 2 ^ 52" by (simp add: abs_le_iff)
  then have "\<bar>real_of_int n\<bar> * ?u \<le> (2 * 2 ^ 52) * ?u"
    using upos by (intro mult_right_mono) simp_all
  also have "(2 * 2 ^ 52) * ?u = 2 * 2 powr of_int e"
    using two_52_ulp [of e] by simp
  also have "\<dots> = 2 powr of_int (e + 1)" by (simp add: powr_add)
  also have "\<dots> \<le> 2 powr 1023" using e(2) by (intro powr_mono) simp_all
  also have "\<dots> < overflow_bound" by (simp add: overflow_bound_def)
  finally have "\<bar>real_of_int n * ?u\<bar> < overflow_bound"
    using upos by (simp add: abs_mult)
  then have "\<not> overflow_bound \<le> real_of_int n * ?u" and "\<not> real_of_int n * ?u \<le> - overflow_bound"
    by (simp_all add: abs_less_iff)
  with \<open>x \<noteq> 0\<close> u n show ?thesis by (simp add: f64_def Let_def)
qed

lemma f64_overflow:
  assumes "overflow_bound \<le> x"
  shows "f64 x = PInf"
proof -
  define e where "e = \<lfloor>log 2 \<bar>x\<bar>\<rfloor>"
  have ob: "overflow_bound = 2 powr 1024" by (simp add: overflow_bound_def)
  have "(0::real) < 2 powr 1024" by simp
  with assms ob have pos: "0 < x" by linarith
  from assms ob have "2 powr 1024 \<le> x" by simp
  then have "1024 \<le> log 2 x" using pos by (simp add: le_log_iff)
  then have e: "1024 \<le> e" using pos by (simp add: e_def le_floor_iff)
  have "of_int e \<le> log 2 x" using pos by (simp add: e_def)
  then have lo: "2 powr of_int e \<le> x" using pos by (simp add: le_log_iff)
  have u: "ulp x = 2 powr of_int (e - 52)" using e by (simp add: ulp_def e_def max_def)
  have "of_int (2 ^ 52) * ulp x \<le> x"
    using lo two_52_ulp [of e] by (simp add: u)
  then have "of_int (2 ^ 52) \<le> x / ulp x"
    using ulp_pos [of x] by (simp add: pos_le_divide_eq)
  then have "2 ^ 52 \<le> round_even (x / ulp x)" by (rule round_even_ge)
  then have "real_of_int (2 ^ 52) \<le> of_int (round_even (x / ulp x))"
    by (simp only: of_int_le_iff)
  then have "real_of_int (2 ^ 52) * ulp x \<le> of_int (round_even (x / ulp x)) * ulp x"
    using ulp_pos [of x] by (intro mult_right_mono) simp_all
  moreover have "real_of_int (2 ^ 52) * ulp x = 2 powr of_int e"
    using two_52_ulp [of e] by (simp add: u)
  moreover have "(2::real) powr 1024 \<le> 2 powr of_int e" using e by (intro powr_mono) simp_all
  ultimately have "overflow_bound \<le> of_int (round_even (x / ulp x)) * ulp x"
    using ob by linarith
  with pos show ?thesis by (simp add: f64_def Let_def)
qed

lemma f64_small_values:
  "f64 1 = Fin 1" "f64 (- 1) = Fin (- 1)" "f64 2 = Fin 2"
  "f64 3 = Fin 3" "f64 (- 2) = Fin (- 2)" "f64 (- 3) = Fin (- 3)"
  "f64 4 = Fin 4" "f64 9 = Fin 9" "f64 13 = Fin 13"
  "f64 (- 4) = Fin (- 4)" "f64 (- 9) = Fin (- 9)" "f64 (- 13) = Fin (- 13)"
proof -
  show "f64 1 = Fin 1" using f64_eval [of 0 1 "2 ^ 52"] by (simp add: powr_neg_numeral)
  show "f64 (- 1) = Fin (- 1)" using f64_eval [of 0 "- 1" "- (2 ^ 52)"] by (simp add: powr_neg_numeral)
  show "f64 2 = Fin 2" using f64_eval [of 1 2 "2 ^ 52"] by (simp add: powr_neg_numeral)
  show "f64 3 = Fin 3" using f64_eval [of 1 3 "3 * 2 ^ 51"] by (simp add: powr_neg_numeral)
  show "f64 (- 2) = Fin (- 2)" using f64_eval [of 1 "- 2" "- (2 ^ 52)"] by (simp add: powr_neg_numeral)
  show "f64 (- 3) = Fin (- 3)" using f64_eval [of 1 "- 3" "- (3 * 2 ^ 51)"] by (simp add: powr_neg_numeral)
  show "f64 4 = Fin 4" using f64_eval [of 2 4 "2 ^ 52"] by (simp add: powr_neg_numeral)
  show "f64 9 = Fin 9" using f64_eval [of 3 9 "9 * 2 ^ 49"] by (simp add: powr_neg_numeral)
  show "f64 13 = Fin 13" using f64_eval [of 3 13 "13 * 2 ^ 49"] by (simp add: powr_neg_numeral)
  show "f64 (- 4) = Fin (- 4)" using f64_eval [of 2 "- 4" "- (2 ^ 52)"] by (simp add: powr_neg_numeral)
  show "f64 (- 9) = Fin (- 9)" using f64_eval [of 3 "- 9" "- (9 * 2 ^ 49)"] by (simp add: powr_neg_numeral)
  show "f64 (- 13) = Fin (- 13)" using f64_eval [of 3 "- 13" "- (13 * 2 ^ 49)"] by (simp add: powr_neg_numeral)
qed

lemma f64_sqrt_13: "f64 (sqrt 13) = Fin (8118979690322419 / 2 ^ 51)"
proof -
  have lo: "(8118979690322419 - 1/2) / 2 ^ 51 < sqrt 13"
    by (rule real_less_rsqrt) (simp add: power2_eq_square)
  have hi: "sqrt 13 < (8118979690322419 + 1/2) / 2 ^ 51"
    by (rule real_less_lsqrt) (simp_all add: power2_eq_square)
  have r: "round_even (sqrt 13 * 2 ^ 51) = 8118979690322419"
    using lo hi by (intro round_even_between) (simp_all add: field_simps)
  have "2 \<le> sqrt 13" by (rule real_le_rsqrt) simp
  moreover have "sqrt 13 < 4" by (rule real_less_lsqrt) simp_all
  ultimately show ?thesis
    using f64_eval [of 1 "sqrt 13" 8118979690322419] r by (simp add: powr_neg_numeral)
qed

lemma f64_norm_product:
  "f64 (8118979690322419 / 2 ^ 51 * (8118979690322419 / 2 ^ 51)) = Fin (7318349394477055 / 2 ^ 49)"
proof -
  have r: "round_even (8118979690322419 / 2 ^ 51 * (8118979690322419 / 2 ^ 51) / 2 powr of_int (3 - 52))
             = 7318349394477055"
    by (intro round_even_between) (simp_all add: powr_neg_numeral)
  show ?thesis
    using f64_eval [of 3 "8118979690322419 / 2 ^ 51 * (8118979690322419 / 2 ^ 51)" 7318349394477055] r
    by (simp add: powr_neg_numeral)
qed

lemma f64_quotient:
  "f64 (- 13 / (7318349394477055 / 2 ^ 49)) = Fin (- (4503599627370497 / 2 ^ 52))"
proof -
  have r: "round_even (- 13 / (7318349394477055 / 2 ^ 49) / 2 powr of_int (0 - 52))
             = - 4503599627370497"
    by (intro round_even_between) (simp_all add: powr_neg_numeral)
  show ?thesis
    using f64_eval [of 0 "- 13 / (7318349394477055 / 2 ^ 49)" "- 4503599627370497"] r
    by (simp add: powr_neg_numeral)
qed

lemma f64_sum: "f64 (- (4503599627370497 / 2 ^ 52) + 1) = Fin (- (1 / 2 ^ 52))"
  using f64_eval [of "- 52" "- (4503599627370497 / 2 ^ 52) + 1" "- (2 ^ 52)"] by (simp add: powr_neg_numeral)

lemma f64_half: "f64 (- (1 / 2 ^ 52) / 2) = Fin (- (1 / 2 ^ 53))"
  using f64_eval [of "- 53" "- (1 / 2 ^ 52) / 2" "- (2 ^ 52)"] by (simp add: powr_neg_numeral)

lemma f64_two_600: "f64 (2 ^ 600) = Fin (2 ^ 600)"
  using f64_eval [of 600 "2 ^ 600" "2 ^ 52"] by (simp add: powr_neg_numeral)

lemma f64_zero [simp]: "f64 0 = Fin 0"
  by (simp add: f64_def)

lemma np_dot_two:
  "np_dot [a1, a2] [b1, b2] = fadd (fadd (Fin 0) (fmul a1 b1)) (fmul a2 b2)"
  by (simp add: np_dot_def)

subsection \<open>The computed similarity\<close>

lemma similarity_of_opposite_vectors:
  "calculate_similarity [2, 3] [- 2, - 3] = Fin (- (1 / 2 ^ 53))"
proof -
  have d: "np_dot [Fin 2, Fin 3] [Fin (- 2), Fin (- 3)] = Fin (- 13)"
    by (simp add: np_dot_two f64_small_values)
  have na: "np_norm [Fin 2, Fin 3] = Fin (8118979690322419 / 2 ^ 51)"
    by (simp add: np_norm_def np_dot_two f64_small_values f64_sqrt_13)
  have nb: "np_norm [Fin (- 2), Fin (- 3)] = Fin (8118979690322419 / 2 ^ 51)"
    by (simp add: np_norm_def np_dot_two f64_small_values f64_sqrt_13)
  have p: "fmul (Fin (8118979690322419 / 2 ^ 51)) (Fin (8118979690322419 / 2 ^ 51))
             = Fin (7318349394477055 / 2 ^ 49)"
    using f64_norm_product by simp
  have q: "fdiv (Fin (- 13)) (Fin (7318349394477055 / 2 ^ 49))
             = Fin (- (4503599627370497 / 2 ^ 52))"
    using f64_quotient by simp
  have s: "fadd (Fin (- (4503599627370497 / 2 ^ 52))) (Fin 1) = Fin (- (1 / 2 ^ 52))"
    using f64_sum by simp
  have h: "fdiv (Fin (- (1 / 2 ^ 52))) (Fin 2) = Fin (- (1 / 2 ^ 53))"
    using f64_half by simp
  have "calculate_similarity [2, 3] [- 2, - 3]
          = fdiv (fadd (fdiv (np_dot [Fin 2, Fin 3] [Fin (- 2), Fin (- 3)])
                          (fmul (np_norm [Fin 2, Fin 3]) (np_norm [Fin (- 2), Fin (- 3)])))
                    (Fin 1)) (Fin 2)"
    by (simp add: calculate_similarity_def Let_def f64_small_values)
  also have "\<dots> = Fin (- (1 / 2 ^ 53))"
    by (simp only: d na nb p q s h)
  finally show ?thesis .
qed

lemma similarity_of_huge_vectors:
  "calculate_similarity [2 ^ 600, 0] [2 ^ 600, 0] = NaN"
proof -
  have o: "f64 (2 ^ 600 * 2 ^ 600) = PInf"
    by (rule f64_overflow) (simp add: overflow_bound_def)
  have d: "np_dot [Fin (2 ^ 600), Fin 0] [Fin (2 ^ 600), Fin 0] = PInf"
    using o by (simp add: np_dot_two)
  then have n: "np_norm [Fin (2 ^ 600), Fin 0] = PInf"
    by (simp add: np_norm_def)
  have "calculate_similarity [2 ^ 600, 0] [2 ^ 600, 0]
          = fdiv (fadd (fdiv (np_dot [Fin (2 ^ 600), Fin 0] [Fin (2 ^ 600), Fin 0])
                          (fmul (np_norm [Fin (2 ^ 600), Fin 0]) (np_norm [Fin (2 ^ 600), Fin 0])))
                    (Fin 1)) (Fin 2)"
    using f64_two_600 by (simp add: calculate_similarity_def Let_def)
  also have "\<dots> = NaN" by (simp only: d n fmul.simps fdiv.simps fadd.simps)
  finally show ?thesis .
qed

lemma similarity_fixed_points:
  "calculate_similarity [1, 0] [1, 0] = Fin 1"
  "calculate_similarity [1, 0] [- 1, 0] = Fin 0"
  by (simp_all add: calculate_similarity_def Let_def np_norm_def np_dot_two f64_small_values)

text \<open>
  Claim C8 says that for two embedding vectors of equal dimension and nonzero norm the
  computed similarity is \<open>(cos + 1) / 2\<close> and so lies between 0 and 1, with 1.0 for
  \<open>[1, 0]\<close>, \<open>[1, 0]\<close> and 0.0 for \<open>[1, 0]\<close>, \<open>[-1, 0]\<close>. The two fixed points are
  computed as claimed. For \<open>[2, 3]\<close> and \<open>[-2, -3]\<close>, where \<open>(cos + 1) / 2\<close> is 0, the
  code computes in double precision and returns \<open>-2^-53\<close>, a negative number; for the
  vector \<open>[2^600, 0]\<close> and itself the dot product overflows and the result is not a
  number. The result is not clamped to the scale from 0 to 1 that the code announces.
\<close>

theorem calculate_similarity_leaves_unit_interval:
  "(exact_cosine [2, 3] [- 2, - 3] + 1) / 2 = 0
   \<and> calculate_similarity [2, 3] [- 2, - 3] = Fin (- (1 / 2 ^ 53))
   \<and> calculate_similarity [2 ^ 600, 0] [2 ^ 600, 0] = NaN
   \<and> calculate_similarity [1, 0] [1, 0] = Fin 1
   \<and> calculate_similarity [1, 0] [- 1, 0] = Fin 0"
  using exact_value_of_opposite_vectors similarity_of_opposite_vectors
    similarity_of_huge_vectors similarity_fixed_points
  by (intro conjI)

section \<open>Properties of the materiality assessment\<close>

text \<open>
  Claim C5, as stated, fails: the rendering of a result whose key differences speak of a
  material weakness and of compliance, and not of a significant deficiency, scores 2 and
  is rated Low, because the indicator looked for is the key \<open>material_weaknesses\<close>, not
  the phrase.
\<close>

theorem materiality_phrase_counterexample:
  "py_in ''material weakness'' (lower ''{'key_differences': 'a material weakness and a compliance gap'}'')
   \<and> py_in ''compliance'' (lower ''{'key_differences': 'a material weakness and a compliance gap'}'')
   \<and> \<not> py_in ''significant deficiency'' (lower ''{'key_differences': 'a material weakness and a compliance gap'}'')
   \<and> materiality_score (assess_materiality_text ''2024-01-01T00:00:00'' ''{'key_differences': 'a material weakness and a compliance gap'}'') = 2
   \<and> materiality_level (assess_materiality_text ''2024-01-01T00:00:00'' ''{'key_differences': 'a material weakness and a compliance gap'}'') = ''Low''"
  unfolding assess_materiality_text_def by (simp, code_simp)

text \<open>
  Claim C5, amended. Score and level are a function of the lower-cased comparison output
  text alone: the score adds 3 if the text contains \<open>material_weaknesses\<close>, 2 if it
  contains \<open>significant_deficiencies\<close> and 2 if it contains \<open>compliance\<close>; the level is
  High iff the score is at least 5, Medium iff it is 3 or 4, Low otherwise. A text with the
  first and the third indicator and without the second scores 5 and is rated High; a text
  with none of them scores 0 and is rated Low.
\<close>

theorem materiality_score_and_level:
  "materiality_score (assess_materiality_text now txt) =
       (if py_in ''material_weaknesses'' (lower txt) then 3 else 0)
     + (if py_in ''significant_deficiencies'' (lower txt) then 2 else 0)
     + (if py_in ''compliance'' (lower txt) then 2 else 0)
   \<and> (materiality_level (assess_materiality_text now txt) = ''High''
        \<longleftrightarrow> 5 \<le> materiality_score (assess_materiality_text now txt))
   \<and> (materiality_level (assess_materiality_text now txt) = ''Medium''
        \<longleftrightarrow> 3 \<le> materiality_score (assess_materiality_text now txt)
            \<and> materiality_score (assess_materiality_text now txt) < 5)
   \<and> (materiality_level (assess_materiality_text now txt) = ''Low''
        \<longleftrightarrow> materiality_score (assess_materiality_text now txt) < 3)
   \<and> (py_in ''material_weaknesses'' (lower txt) \<and> py_in ''compliance'' (lower txt)
        \<and> \<not> py_in ''significant_deficiencies'' (lower txt)
        \<longrightarrow> materiality_score (assess_materiality_text now txt) = 5
            \<and> materiality_level (assess_materiality_text now txt) = ''High'')
   \<and> (\<not> py_in ''material_weaknesses'' (lower txt) \<and> \<not> py_in ''compliance'' (lower txt)
        \<and> \<not> py_in ''significant_deficiencies'' (lower txt)
        \<longrightarrow> materiality_score (assess_materiality_text now txt) = 0
            \<and> materiality_level (assess_materiality_text now txt) = ''Low'')"
  by (simp add: assess_materiality_text_def materiality_score_of_def materiality_level_of_def)

theorem materiality_score_and_level_witness:
  "materiality_score (assess_materiality_text ''2024-01-01T00:00:00''
       ''{'material_weaknesses': [], 'compliance_gaps': []}'') = 5
   \<and> materiality_level (assess_materiality_text ''2024-01-01T00:00:00''
       ''{'material_weaknesses': [], 'compliance_gaps': []}'') = ''High''
   \<and> materiality_score (assess_materiality_text ''2024-01-01T00:00:00''
       ''{'key_differences': []}'') = 0
   \<and> materiality_level (assess_materiality_text ''2024-01-01T00:00:00''
       ''{'key_differences': []}'') = ''Low''"
proof -
  have h1: "py_in ''material_weaknesses'' (lower ''{'material_weaknesses': [], 'compliance_gaps': []}'')
      \<and> py_in ''compliance'' (lower ''{'material_weaknesses': [], 'compliance_gaps': []}'')
      \<and> \<not> py_in ''significant_deficiencies'' (lower ''{'material_weaknesses': [], 'compliance_gaps': []}'')"
    by code_simp
  have h2: "\<not> py_in ''material_weaknesses'' (lower ''{'key_differences': []}'')
      \<and> \<not> py_in ''compliance'' (lower ''{'key_differences': []}'')
      \<and> \<not> py_in ''significant_deficiencies'' (lower ''{'key_differences': []}'')"
    by code_simp
  from h1 h2
    materiality_score_and_level [of "''2024-01-01T00:00:00''" "''{'material_weaknesses': [], 'compliance_gaps': []}''"]
    materiality_score_and_level [of "''2024-01-01T00:00:00''" "''{'key_differences': []}''"]
  show ?thesis by blast
qed

section \<open>Properties of section extraction\<close>

lemma scan_section_length:
  "length acc \<le> 50 \<Longrightarrow> length (scan_section nm b acc ls) \<le> 51"
proof (induction ls arbitrary: b acc)
  case Nil
  then show ?case by simp
next
  case (Cons line rest)
  have "length (scan_section nm True (acc @ [line]) rest) \<le> 51" if "length (acc @ [line]) \<le> 50"
    using that by (rule Cons.IH)
  with Cons.IH [of acc] Cons.prems show ?case
    by (auto simp: Let_def not_less)
qed

text \<open>
  Claim C6 says that a section followed by 200 lines and no other header is cut at 50
  lines. The loop appends a line before it tests \<open>len(section_content) > 50\<close>, so the
  excerpt of such a section has 51 lines.
\<close>

theorem extract_section_exceeds_cap:
  "map_option (\<lambda>excerpt. length (split_lines excerpt))
     (extract_section (join_lines (''Key Findings'' # replicate 200 ''x'')) ''Key Findings'')
   = Some 51"
  by code_simp

section \<open>Properties of the compliance scores\<close>

lemma py_round2_bounds:
  assumes "0 \<le> x" and "x \<le> 100"
  shows "0 \<le> py_round2 x \<and> py_round2 x \<le> 100"
proof -
  define y where "y = x * 100"
  define f where "f = \<lfloor>y\<rfloor>"
  have y: "0 \<le> y" "y \<le> 10000" using assms by (simp_all add: y_def)
  have f0: "0 \<le> f" using y by (simp add: f_def)
  have f1: "f \<le> 10000" using y(2) unfolding f_def by (simp add: floor_le_iff) 
  have up: "f + 1 \<le> 10000" if "y - of_int f \<ge> 1/2"
  proof -
    have "of_int f < y" using that by linarith
    then have "real_of_int f < 10000" using y(2) by linarith
    then show ?thesis by linarith
  qed
  have "py_round2 x = of_int (if y - of_int f < 1/2 then f else if y - of_int f > 1/2 then f + 1
                 else if even f then f else f + 1) / 100"
    by (simp add: py_round2_def y_def f_def Let_def)
  moreover have "0 \<le> (if y - of_int f < 1/2 then f else if y - of_int f > 1/2 then f + 1
                 else if even f then f else f + 1)" using f0 by simp
  moreover have "(if y - of_int f < 1/2 then f else if y - of_int f > 1/2 then f + 1
                 else if even f then f else f + 1) \<le> 10000" using f1 up by auto
  ultimately show ?thesis by simp
qed

lemma min_frequency_bounds:
  "0 \<le> min (framework_frequency body framework * 1000) 100
   \<and> min (framework_frequency body framework * 1000) 100 \<le> 100"
  by (simp add: framework_frequency_def)

lemma py_round2_zero: "py_round2 0 = 0"
  by (simp add: py_round2_def)

text \<open>
  Claim C9, as stated, fails: the score is not \<open>min(count / words * 1000, 100)\<close> itself
  but that number rounded to two decimals. One keyword in thirty words gives 33.33, not
  100/3.
\<close>

theorem compliance_score_rounding_counterexample:
  "calculate_framework_score one_filing_in_thirty_words ''SEC''
     \<noteq> min (real (keyword_count one_filing_in_thirty_words ''SEC'')
              / real (word_count one_filing_in_thirty_words) * 1000) 100"
proof -
  have k: "keyword_count one_filing_in_thirty_words ''SEC'' = 1"
    by code_simp
  have w: "word_count one_filing_in_thirty_words = 30"
    by code_simp
  have r: "py_round2 (100 / 3) = 3333 / 100"
    by (simp add: py_round2_def Let_def)
  show ?thesis
    by (simp add: calculate_framework_score_def framework_frequency_def k w r)
qed

text \<open>
  Claim C9, amended. For every text the assessment, which takes no collaborator, returns
  one entry for each of SOX, COSO, PCAOB and SEC, in this order; the score of a framework is
  \<open>min(count / words * 1000, 100)\<close> rounded to two decimals, where the frequency
  \<open>count / words\<close> is taken as 0 for a text without words; so the score is 0 for such a
  text, and every score lies between 0 and 100.
\<close>

theorem compliance_scores_rounded_and_bounded:
  "map fst (assess_compliance_scores clock body) = [''SOX'', ''COSO'', ''PCAOB'', ''SEC'']
   \<and> (\<forall>(framework, a) \<in> set (assess_compliance_scores clock body).
         score a = py_round2 (min (framework_frequency body framework * 1000) 100)
         \<and> (0 < word_count body \<longrightarrow>
              framework_frequency body framework
                = real (keyword_count body framework) / real (word_count body))
         \<and> (word_count body = 0 \<longrightarrow> score a = 0)
         \<and> 0 \<le> score a \<and> score a \<le> 100)"
proof -
  have b: "0 \<le> calculate_framework_score body f \<and> calculate_framework_score body f \<le> 100" for f
    unfolding calculate_framework_score_def
    using min_frequency_bounds [of body f] by (intro py_round2_bounds) simp_all
  have z: "word_count body = 0 \<Longrightarrow> calculate_framework_score body f = 0" for f
    by (simp add: calculate_framework_score_def framework_frequency_def py_round2_zero)
  show ?thesis
    using b z
    by (auto simp: assess_compliance_scores_def frameworks_def calculate_framework_score_def
        framework_frequency_def)
qed

theorem compliance_scores_rounded_and_bounded_witness:
  "score (the (map_of (assess_compliance_scores (\<lambda>f. ''2024-01-01T00:00:00'')
                 one_filing_in_thirty_words) ''SEC'')) = 3333 / 100
   \<and> score (the (map_of (assess_compliance_scores (\<lambda>f. ''2024-01-01T00:00:00'') '''') ''SEC'')) = 0"
proof -
  let ?T = "one_filing_in_thirty_words"
  let ?c = "\<lambda>f::string. ''2024-01-01T00:00:00''"
  let ?a = "the (map_of (assess_compliance_scores ?c ?T) ''SEC'')"
  let ?b = "the (map_of (assess_compliance_scores ?c '''') ''SEC'')"
  have k: "keyword_count ?T ''SEC'' = 1" by code_simp
  have w: "word_count ?T = 30" by code_simp
  have w0: "word_count '''' = 0" by code_simp
  have r: "py_round2 (100 / 3) = 3333 / 100"
    by (simp add: py_round2_def Let_def)
  have m1: "(''SEC'', ?a) \<in> set (assess_compliance_scores ?c ?T)"
    by (simp add: assess_compliance_scores_def frameworks_def)
  have m2: "(''SEC'', ?b) \<in> set (assess_compliance_scores ?c '''')"
    by (simp add: assess_compliance_scores_def frameworks_def)
  have ff: "framework_frequency ?T ''SEC'' = 1 / 30"
    by (simp add: framework_frequency_def k w)
  from compliance_scores_rounded_and_bounded [of ?c ?T] m1
  have "score ?a = py_round2 (min (framework_frequency ?T ''SEC'' * 1000) 100)"
    by fastforce
  then have 1: "score ?a = 3333 / 100" by (simp add: ff r)
  from compliance_scores_rounded_and_bounded [of ?c "''''"] m2 w0
  have 2: "score ?b = 0" by fastforce
  from 1 2 show ?thesis by simp
qed

section \<open>Properties of uploads\<close>

lemma concat_read_chunks: "0 < n \<Longrightarrow> concat (read_chunks n data) = data"
proof (induction n data rule: read_chunks.induct)
  case (1 n data)
  show ?case
  proof (cases "take n data = []")
    case True
    with "1.prems" have "data = []" by simp
    with True show ?thesis by (subst read_chunks.simps) simp
  next
    case False
    with "1.IH" "1.prems" have "concat (read_chunks n (drop n data)) = drop n data" by simp
    with False show ?thesis
      by (subst read_chunks.simps) simp
  qed
qed

lemma foldl_append_concat: "foldl (@) acc xs = acc @ concat xs"
  by (induction xs arbitrary: acc) simp_all

lemma calculate_hash_sha256: "calculate_hash lib data = sha256 lib data"
  by (simp add: calculate_hash_def foldl_append_concat concat_read_chunks)

lemma check_duplicate_cases:
  "check_duplicate st h = Inr None \<longleftrightarrow> filter (\<lambda>x. ar_content_hash x = h) (stored_reports st) = []"
  "check_duplicate st h = Inr (Some r) \<longleftrightarrow> filter (\<lambda>x. ar_content_hash x = h) (stored_reports st) = [r]"
  by (simp_all add: check_duplicate_def split: list.splits)

lemma process_upload_success_cases:
  assumes "process_upload lib st new_id file rt co = (Inr r, st')"
  shows "validate_file file
         \<and> filter (\<lambda>x. ar_content_hash x = sha256 lib (uf_content file)) (stored_reports st') = [r]"
proof -
  from assms have v: "validate_file file"
    by (auto simp: process_upload_def upload_failed_def split: if_splits)
  show ?thesis
  proof (cases "check_duplicate st (sha256 lib (uf_content file))")
    case (Inl e)
    with assms v show ?thesis by (simp add: process_upload_def upload_failed_def)
  next
    case (Inr found)
    show ?thesis
    proof (cases found)
      case None
      with Inr have "filter (\<lambda>x. ar_content_hash x = sha256 lib (uf_content file)) (stored_reports st) = []"
        by (simp add: check_duplicate_cases)
      with assms v Inr None show ?thesis
        by (auto simp: process_upload_def save_file_def Let_def)
    next
      case (Some existing)
      with assms v Inr show ?thesis
        by (auto simp: process_upload_def check_duplicate_cases)
    qed
  qed
qed

lemma same_keys_same_matches:
  assumes "map (\<lambda>r. (ar_id r, ar_content_hash r)) xs = map (\<lambda>r. (ar_id r, ar_content_hash r)) ys"
  shows "map ar_id (filter (\<lambda>r. ar_content_hash r = h) xs)
         = map ar_id (filter (\<lambda>r. ar_content_hash r = h) ys)"
proof -
  from assms have "length xs = length ys" by (rule map_eq_imp_length_eq)
  then show ?thesis using assms
    by (induction xs ys rule: list_induct2) auto
qed

lemma process_upload_unique_fingerprints:
  assumes "unique_fingerprints st"
  shows "unique_fingerprints (snd (process_upload lib st new_id file rt co))"
proof (cases "validate_file file")
  case False
  with assms show ?thesis by (simp add: process_upload_def upload_failed_def)
next
  case True
  show ?thesis
  proof (cases "check_duplicate st (sha256 lib (uf_content file))")
    case (Inl e)
    with True assms show ?thesis by (simp add: process_upload_def upload_failed_def)
  next
    case (Inr found)
    show ?thesis
    proof (cases found)
      case (Some existing)
      with True Inr assms show ?thesis by (simp add: process_upload_def)
    next
      case None
      with Inr have "filter (\<lambda>x. ar_content_hash x = sha256 lib (uf_content file))
                       (stored_reports st) = []"
        by (simp add: check_duplicate_cases)
      then have "sha256 lib (uf_content file) \<notin> ar_content_hash ` set (stored_reports st)"
        by (auto simp: filter_empty_conv)
      with True Inr None assms show ?thesis
        by (simp add: process_upload_def save_file_def Let_def unique_fingerprints_def)
    qed
  qed
qed

text \<open>
  Claim C1. When an upload has been accepted and a second upload that passes validation
  carries the same bytes, the second upload returns the stored report of the first (the
  row with the same identity) and adds nothing: the store is left as it was and holds
  exactly one report with the fingerprint of these bytes. Between the two uploads the
  rows may have changed in any column but identity and fingerprint, as the extraction
  that runs in the background does. An upload keeps the store at one report for each
  fingerprint at most, and the fingerprint is a function of the bytes, the same whether
  they are hashed at once or read in chunks of 4096.
\<close>

theorem identical_upload_returns_stored_report:
  assumes "process_upload lib st id1 file1 rt1 co1 = (Inr r1, st1)"
    and "map (\<lambda>r. (ar_id r, ar_content_hash r)) (stored_reports st2)
         = map (\<lambda>r. (ar_id r, ar_content_hash r)) (stored_reports st1)"
    and "uf_content file2 = uf_content file1"
    and "validate_file file2"
  shows "(\<exists>r2. process_upload lib st2 id2 file2 rt2 co2 = (Inr r2, st2) \<and> ar_id r2 = ar_id r1)
         \<and> length (filter (\<lambda>x. ar_content_hash x = sha256 lib (uf_content file1))
                     (stored_reports st2)) = 1
         \<and> (unique_fingerprints st \<longrightarrow> unique_fingerprints st1)
         \<and> calculate_hash lib (uf_content file2) = sha256 lib (uf_content file1)"
proof -
  let ?h = "sha256 lib (uf_content file1)"
  from process_upload_success_cases [OF assms(1)]
  have "filter (\<lambda>x. ar_content_hash x = ?h) (stored_reports st1) = [r1]" by simp
  with same_keys_same_matches [OF assms(2), of ?h]
  have "map ar_id (filter (\<lambda>x. ar_content_hash x = ?h) (stored_reports st2)) = [ar_id r1]"
    by simp
  then obtain r2 where r2: "filter (\<lambda>x. ar_content_hash x = ?h) (stored_reports st2) = [r2]"
    and i: "ar_id r2 = ar_id r1" by auto
  then have "check_duplicate st2 (sha256 lib (uf_content file2)) = Inr (Some r2)"
    using assms(3) by (simp add: check_duplicate_def)
  with assms(4) have "process_upload lib st2 id2 file2 rt2 co2 = (Inr r2, st2)"
    by (simp add: process_upload_def)
  moreover have "unique_fingerprints st \<longrightarrow> unique_fingerprints st1"
    using process_upload_unique_fingerprints [of st lib id1 file1 rt1 co1] assms(1) by simp
  ultimately show ?thesis using r2 i assms(3) by (simp add: calculate_hash_sha256)
qed

theorem identical_upload_returns_stored_report_witness:
  "(\<exists>r1. process_upload sample_lib empty_store 1 sample_pdf ''internal'' ''acme''
            = (Inr r1, snd (process_upload sample_lib empty_store 1 sample_pdf ''internal'' ''acme''))
         \<and> (\<exists>r2. process_upload sample_lib store_with_q1 2 sample_pdf_again ''sec'' ''acme''
                    = (Inr r2, store_with_q1) \<and> ar_id r2 = ar_id r1))
   \<and> unique_fingerprints empty_store
   \<and> unique_fingerprints (snd (process_upload sample_lib empty_store 1 sample_pdf ''internal'' ''acme''))"
proof -
  let ?p = "process_upload sample_lib empty_store 1 sample_pdf ''internal'' ''acme''"
  let ?r = "stored_q1\<lparr>ar_extraction_status := ''pending''\<rparr>"
  have c: "uf_content sample_pdf_again = uf_content sample_pdf"
    by (simp add: sample_pdf_def sample_pdf_again_def)
  have v: "validate_file sample_pdf_again"
    by (simp add: validate_file_def sample_pdf_again_def allowed_types_def max_size_def)
  have f: "?p = (Inr ?r, snd ?p)" and l: "stored_reports (snd ?p) = [?r]"
    by (simp_all add: process_upload_def validate_file_def sample_pdf_def allowed_types_def
        max_size_def check_duplicate_def empty_store_def sample_lib_def save_file_def Let_def
        stored_q1_def)
  have k: "map (\<lambda>r. (ar_id r, ar_content_hash r)) (stored_reports store_with_q1)
         = map (\<lambda>r. (ar_id r, ar_content_hash r)) (stored_reports (snd ?p))"
    by (subst l) (simp add: store_with_q1_def stored_q1_def)
  have u: "unique_fingerprints empty_store"
    by (simp add: unique_fingerprints_def empty_store_def)
  from identical_upload_returns_stored_report [OF f k c v, of 2 "''sec''" "''acme''"] f u
  show ?thesis by blast
qed

text \<open>
  Claim C10, as stated, fails: when two stored reports carry the fingerprint of a valid
  upload, the duplicate check raises and \<open>process_upload\<close> returns no record.
\<close>

theorem ambiguous_duplicate_counterexample:
  "validate_file sample_pdf_again
   \<and> stored_q1 \<in> set (stored_reports store_with_twins)
   \<and> ar_content_hash stored_q1 = sha256 sample_lib (uf_content sample_pdf_again)
   \<and> fst (process_upload sample_lib store_with_twins 5 sample_pdf_again ''sec'' ''acme'')
       = Inl (DataIngestionException
                ''Failed to process upload: Multiple rows were found when one or none was required'')"
  by (simp add: process_upload_def validate_file_def sample_pdf_again_def allowed_types_def
      max_size_def check_duplicate_def store_with_twins_def stored_q1_def stored_q1_twin_def
      sample_lib_def upload_failed_def Let_def)

text \<open>
  Claim C10, amended. When the fingerprint of an upload is that of a stored report, the
  state after \<open>process_upload\<close> is the state before it: no file is written and no row is
  added. A record that the call returns is a stored report with that fingerprint. When
  the upload passes validation and exactly one stored report has the fingerprint, the call
  returns that report; when several have it, the call fails.
\<close>

theorem duplicate_upload_returns_stored_row:
  assumes "\<exists>r \<in> set (stored_reports st). ar_content_hash r = sha256 lib (uf_content file)"
  shows "snd (process_upload lib st new_id file rt co) = st
         \<and> (\<forall>r. fst (process_upload lib st new_id file rt co) = Inr r
               \<longrightarrow> r \<in> set (stored_reports st)
                   \<and> ar_content_hash r = sha256 lib (uf_content file))
         \<and> (validate_file file
              \<and> filter (\<lambda>r. ar_content_hash r = sha256 lib (uf_content file))
                   (stored_reports st) = [existing]
            \<longrightarrow> fst (process_upload lib st new_id file rt co) = Inr existing)
         \<and> (validate_file file
              \<and> 1 < length (filter (\<lambda>r. ar_content_hash r = sha256 lib (uf_content file))
                              (stored_reports st))
            \<longrightarrow> fst (process_upload lib st new_id file rt co)
                  = Inl (DataIngestionException
                           (''Failed to process upload: '' @ exc_str MultipleResultsFound)))"
proof -
  let ?h = "sha256 lib (uf_content file)"
  let ?m = "filter (\<lambda>r. ar_content_hash r = ?h) (stored_reports st)"
  from assms have ne: "?m \<noteq> []" by (simp add: filter_empty_conv)
  show ?thesis
  proof (cases "validate_file file")
    case False
    then show ?thesis by (simp add: process_upload_def upload_failed_def)
  next
    case True
    show ?thesis
    proof (cases ?m)
      case Nil
      with ne show ?thesis by simp
    next
      case (Cons r rs)
      show ?thesis
      proof (cases rs)
        case Nil
        with Cons have one: "?m = [r]" by simp
        then have "r \<in> set ?m" by simp
        then have "r \<in> set (stored_reports st) \<and> ar_content_hash r = ?h" by simp
        moreover from one have "check_duplicate st ?h = Inr (Some r)"
          by (simp add: check_duplicate_def)
        ultimately show ?thesis using True one by (simp add: process_upload_def)
      next
        case (Cons r' rs')
        with \<open>?m = r # rs\<close> have many: "?m = r # r' # rs'" by simp
        then have "check_duplicate st ?h = Inl MultipleResultsFound"
          by (simp add: check_duplicate_def)
        then show ?thesis using True many by (simp add: process_upload_def upload_failed_def)
      qed
    qed
  qed
qed

theorem duplicate_upload_returns_stored_row_witness:
  "process_upload sample_lib store_with_q2_q1 5 sample_pdf_again ''sec'' ''acme''
     = (Inr stored_q1, store_with_q2_q1)
   \<and> stored_q1 \<in> set (stored_reports store_with_q2_q1)
   \<and> ar_content_hash stored_q1 = sha256 sample_lib (uf_content sample_pdf_again)
   \<and> snd (process_upload sample_lib store_with_twins 5 sample_pdf_again ''sec'' ''acme'')
       = store_with_twins
   \<and> fst (process_upload sample_lib store_with_twins 5 sample_pdf_again ''sec'' ''acme'')
       = Inl (DataIngestionException
                (''Failed to process upload: '' @ exc_str MultipleResultsFound))"
proof -
  let ?h = "sha256 sample_lib (uf_content sample_pdf_again)"
  have v: "validate_file sample_pdf_again"
    by (simp add: validate_file_def sample_pdf_again_def allowed_types_def max_size_def)
  have m1: "stored_q1 \<in> set (stored_reports store_with_q2_q1)"
    and m2: "stored_q1 \<in> set (stored_reports store_with_twins)"
    and h: "ar_content_hash stored_q1 = ?h"
    by (simp_all add: store_with_q2_q1_def store_with_twins_def stored_q1_def sample_lib_def
        sample_pdf_again_def)
  have one: "filter (\<lambda>r. ar_content_hash r = ?h) (stored_reports store_with_q2_q1) = [stored_q1]"
    by (simp add: store_with_q2_q1_def stored_q1_def stored_q2_def sample_lib_def
        sample_pdf_again_def)
  have two: "1 < length (filter (\<lambda>r. ar_content_hash r = ?h) (stored_reports store_with_twins))"
    by (simp add: store_with_twins_def stored_q1_def stored_q1_twin_def sample_lib_def
        sample_pdf_again_def)
  from m1 h have b1: "\<exists>r \<in> set (stored_reports store_with_q2_q1). ar_content_hash r = ?h"
    by blast
  from m2 h have b2: "\<exists>r \<in> set (stored_reports store_with_twins). ar_content_hash r = ?h"
    by blast
  from duplicate_upload_returns_stored_row [OF b1, of 5 "''sec''" "''acme''" stored_q1] v one
  have "snd (process_upload sample_lib store_with_q2_q1 5 sample_pdf_again ''sec'' ''acme'')
          = store_with_q2_q1"
    and "fst (process_upload sample_lib store_with_q2_q1 5 sample_pdf_again ''sec'' ''acme'')
          = Inr stored_q1"
    by blast+
  then have a: "process_upload sample_lib store_with_q2_q1 5 sample_pdf_again ''sec'' ''acme''
     = (Inr stored_q1, store_with_q2_q1)"
    by (metis prod.collapse)
  from duplicate_upload_returns_stored_row [OF b2, of 5 "''sec''" "''acme''" stored_q1] v two
  have "snd (process_upload sample_lib store_with_twins 5 sample_pdf_again ''sec'' ''acme'')
       = store_with_twins"
    and "fst (process_upload sample_lib store_with_twins 5 sample_pdf_again ''sec'' ''acme'')
       = Inl (DataIngestionException
                (''Failed to process upload: '' @ exc_str MultipleResultsFound))"
    by blast+
  with a m1 h show ?thesis by simp
qed

section \<open>Properties of the comparison service\<close>

lemma get_report_set_comparison [simp]:
  "get_report (set_comparison db i f) j = get_report db j"
  by (simp add: get_report_def set_comparison_def)

lemma find_update_first:
  "(\<And>x. P (f x) = P x) \<Longrightarrow> find P (update_first P f xs) = map_option f (find P xs)"
  by (induction xs) simp_all

lemma update_first_twice:
  "(\<And>x. P (f x) = P x) \<Longrightarrow>
   update_first P g (update_first P f xs) = update_first P (g \<circ> f) xs"
  by (induction xs) simp_all

lemma update_first_append_fresh:
  "find P xs = None \<Longrightarrow> update_first P f (xs @ [x]) = xs @ (if P x then [f x] else [x])"
  by (induction xs) (simp_all split: if_splits)

lemma find_append_fresh:
  "find P xs = None \<Longrightarrow> find P (xs @ [x]) = (if P x then Some x else None)"
  by (induction xs) (simp_all split: if_splits)

lemma get_comparison_set_comparison:
  "(\<And>c. c_id (f c) = c_id c) \<Longrightarrow>
   get_comparison (set_comparison db i f) i = map_option f (get_comparison db i)"
  by (simp add: get_comparison_def set_comparison_def find_update_first)

lemma set_comparison_twice:
  "(\<And>c. c_id (f c) = c_id c) \<Longrightarrow>
   set_comparison (set_comparison db i f) i g = set_comparison db i (g \<circ> f)"
  by (simp add: set_comparison_def update_first_twice)

lemma process_comparison_ready:
  assumes "get_comparison db i = Some c"
    and "get_report db (source_report_id c) = Some s"
    and "get_report db (target_report_id c) = Some t"
    and "truthy (r_raw_text s)" and "truthy (r_raw_text t)"
  shows "process_comparison sv db i =
           store_results sv (set_comparison db i (\<lambda>c. c\<lparr>c_status := ''processing''\<rparr>)) i
             (the (r_raw_text s)) (the (r_raw_text t)) (embedding_similarity s t)
             (compare_reports (language_model sv) 0 (the (r_raw_text s)) (the (r_raw_text t)))"
  using assms by (simp add: process_comparison_def Let_def)

lemma process_comparison_unready:
  assumes "get_comparison db i = Some c"
    and "get_report db (source_report_id c) = Some s"
    and "get_report db (target_report_id c) = Some t"
    and "\<not> truthy (r_raw_text s) \<or> \<not> truthy (r_raw_text t)"
  shows "process_comparison sv db i =
           comparison_failed (set_comparison db i (\<lambda>c. c\<lparr>c_status := ''processing''\<rparr>)) i
             (ValueError ''Reports must be processed before comparison'')"
  using assms by (auto simp: process_comparison_def Let_def)

lemma similarity_score_stored:
  assumes "get_comparison db i = Some c"
  shows "map_option similarity_score (get_comparison (snd (store_results sv db i st tt sim res)) i)
         = Some (Some sim)"
  using assms
  by (cases res)
     (simp_all add: store_results_def comparison_failed_def Let_def set_comparison_twice
        get_comparison_set_comparison)

lemma store_results_dict:
  assumes "get_comparison db i = Some c"
  shows "fst (store_results sv db i st tt sim (JDict d))
           = Inr \<lparr> o_comparison_id = i, o_status = ''completed'', o_similarity_score = sim,
                   o_results = JDict d \<rparr>"
    and "\<exists>c'. get_comparison (snd (store_results sv db i st tt sim (JDict d))) i = Some c'
           \<and> c_status c' = ''completed''
           \<and> similarity_score c' = Some sim
           \<and> key_differences c' = Some (dict_get d ''key_differences'' (JDict []))
           \<and> risk_alignment c' = Some (dict_get d ''risk_alignment'' (JDict []))
           \<and> compliance_gaps c' = Some (dict_get d ''compliance_gaps'' (JDict []))
           \<and> recommendations c' = Some (dict_get d ''recommendations'' (JDict []))
           \<and> section_comparisons c' = Some (analyze_sections (language_model sv) 1 st tt)"
  using assms
  by (simp_all add: store_results_def Let_def set_comparison_twice get_comparison_set_comparison)

lemma process_comparison_completes:
  assumes "get_comparison db i = Some c"
    and "get_report db (source_report_id c) = Some s"
    and "get_report db (target_report_id c) = Some t"
    and "truthy (r_raw_text s)" and "truthy (r_raw_text t)"
    and "compare_reports (language_model sv) 0 (the (r_raw_text s)) (the (r_raw_text t)) = JDict d"
  shows "fst (process_comparison sv db i)
           = Inr \<lparr> o_comparison_id = i, o_status = ''completed'',
                   o_similarity_score = embedding_similarity s t, o_results = JDict d \<rparr>"
    and "\<exists>c'. get_comparison (snd (process_comparison sv db i)) i = Some c'
           \<and> c_status c' = ''completed''
           \<and> similarity_score c' = Some (embedding_similarity s t)
           \<and> key_differences c' = Some (dict_get d ''key_differences'' (JDict []))
           \<and> risk_alignment c' = Some (dict_get d ''risk_alignment'' (JDict []))
           \<and> compliance_gaps c' = Some (dict_get d ''compliance_gaps'' (JDict []))
           \<and> recommendations c' = Some (dict_get d ''recommendations'' (JDict []))
           \<and> section_comparisons c'
               = Some (analyze_sections (language_model sv) 1
                         (the (r_raw_text s)) (the (r_raw_text t)))"
proof -
  have p: "get_comparison (set_comparison db i (\<lambda>c. c\<lparr>c_status := ''processing''\<rparr>)) i
             = Some (c\<lparr>c_status := ''processing''\<rparr>)"
    using assms(1) by (simp add: get_comparison_set_comparison)
  note r = process_comparison_ready [OF assms(1-5), of sv]
  show "fst (process_comparison sv db i)
           = Inr \<lparr> o_comparison_id = i, o_status = ''completed'',
                   o_similarity_score = embedding_similarity s t, o_results = JDict d \<rparr>"
    unfolding r assms(6) by (rule store_results_dict(1) [OF p])
  show "\<exists>c'. get_comparison (snd (process_comparison sv db i)) i = Some c'
           \<and> c_status c' = ''completed''
           \<and> similarity_score c' = Some (embedding_similarity s t)
           \<and> key_differences c' = Some (dict_get d ''key_differences'' (JDict []))
           \<and> risk_alignment c' = Some (dict_get d ''risk_alignment'' (JDict []))
           \<and> compliance_gaps c' = Some (dict_get d ''compliance_gaps'' (JDict []))
           \<and> recommendations c' = Some (dict_get d ''recommendations'' (JDict []))
           \<and> section_comparisons c'
               = Some (analyze_sections (language_model sv) 1
                         (the (r_raw_text s)) (the (r_raw_text t)))"
    unfolding r assms(6) by (rule store_results_dict(2) [OF p])
qed

lemma compare_reports_failure:
  assumes "model k (take 2000 a) (take 2000 b) = CallError m
           \<or> model k (take 2000 a) (take 2000 b) = Unparseable m"
  shows "compare_reports model k a b = JDict [(''error'', JStr (''Failed to compare reports: '' @ m))]"
  using assms by (auto simp: compare_reports_def)

lemma sample_facts:
  "get_comparison comparison_db 7 = Some sample_comparison"
  "get_report comparison_db (source_report_id sample_comparison) = Some processed_report"
  "get_report comparison_db (target_report_id sample_comparison) = Some embedded_report"
  "truthy (r_raw_text processed_report)"
  "truthy (r_raw_text embedded_report)"
  by (simp_all add: get_comparison_def get_report_def comparison_db_def sample_db_def
      sample_comparison_def uploaded_report_def processed_report_def embedded_report_def
      truthy_def)

lemma sample_holistic_call:
  "compare_reports (language_model sample_services) 0 (the (r_raw_text processed_report))
     (the (r_raw_text embedded_report))
   = JDict [(''error'', JStr ''Failed to compare reports: timeout'')]"
  by (simp add: compare_reports_def sample_services_def unreachable_model_def)

lemma process_comparison_terminal_status:
  assumes "get_comparison db i = Some c"
  shows "\<exists>c'. get_comparison (snd (process_comparison sv db i)) i = Some c'
           \<and> (c_status c' = ''completed'' \<or> c_status c' = ''error'')"
proof -
  let ?db1 = "set_comparison db i (\<lambda>c. c\<lparr>c_status := ''processing''\<rparr>)"
  have p: "get_comparison ?db1 i = Some (c\<lparr>c_status := ''processing''\<rparr>)"
    using assms by (simp add: get_comparison_set_comparison)
  have failed: "\<exists>c'. get_comparison (snd (comparison_failed d i e)) i = Some c'
           \<and> (c_status c' = ''completed'' \<or> c_status c' = ''error'')"
    if "get_comparison d i = Some x" for d e x
    using that by (simp add: comparison_failed_def get_comparison_set_comparison)
  have stored: "\<exists>c'. get_comparison (snd (store_results sv ?db1 i st tt sim res)) i = Some c'
           \<and> (c_status c' = ''completed'' \<or> c_status c' = ''error'')" for st tt sim res
    using assms
    by (cases res)
       (simp_all add: store_results_def comparison_failed_def Let_def set_comparison_twice
          get_comparison_set_comparison)
  show ?thesis
    unfolding process_comparison_def using assms failed [OF p] stored
    by (simp add: Let_def split: option.splits)
qed

text \<open>
  Claim C2 says that a comparison of a report that is not yet processed fails at once and
  creates no record. Report 1 of the sample database has only been uploaded and has no
  text, and \<open>create_comparison\<close> adds a comparison of it with report 2 all the same, in
  status \<open>pending\<close>. Report 4 is still in status \<open>processing\<close> and has its text, and
  \<open>process_comparison\<close> compares it with report 2 and completes: the status of the reports
  is never looked at, only their text.
\<close>

theorem unprocessed_reports_are_compared:
  "get_report sample_db 1 = Some uploaded_report
   \<and> r_status uploaded_report = ''uploaded''
   \<and> comparisons sample_db = []
   \<and> map c_status (comparisons (snd (create_comparison sample_db 7 1 1 2 ''internal_vs_sec'')))
       = [''pending'']
   \<and> get_report early_db (source_report_id early_comparison) = Some half_processed_report
   \<and> r_status half_processed_report = ''processing''
   \<and> fst (process_comparison answering_services early_db 8)
       = Inr \<lparr> o_comparison_id = 8, o_status = ''completed'', o_similarity_score = Fin 0,
               o_results = JDict [(''key_differences'', JList [])] \<rparr>
   \<and> map_option c_status
        (get_comparison (snd (process_comparison answering_services early_db 8)) 8)
       = Some ''completed''"
proof -
  have f: "get_comparison early_db 8 = Some early_comparison"
    "get_report early_db (source_report_id early_comparison) = Some half_processed_report"
    "get_report early_db (target_report_id early_comparison) = Some processed_report"
    "truthy (r_raw_text half_processed_report)"
    "truthy (r_raw_text processed_report)"
    by (simp_all add: get_comparison_def get_report_def early_db_def early_comparison_def
        half_processed_report_def processed_report_def truthy_def)
  have r: "compare_reports (language_model answering_services) 0
             (the (r_raw_text half_processed_report)) (the (r_raw_text processed_report))
           = JDict [(''key_differences'', JList [])]"
    by (simp add: compare_reports_def answering_services_def answering_model_def)
  have e: "embedding_similarity half_processed_report processed_report = Fin 0"
    by (simp add: embedding_similarity_def has_embeddings_def half_processed_report_def)
  have 1: "fst (process_comparison answering_services early_db 8)
       = Inr \<lparr> o_comparison_id = 8, o_status = ''completed'', o_similarity_score = Fin 0,
               o_results = JDict [(''key_differences'', JList [])] \<rparr>"
    using process_comparison_completes(1) [OF f r] by (simp add: e)
  have 2: "map_option c_status
        (get_comparison (snd (process_comparison answering_services early_db 8)) 8)
       = Some ''completed''"
    using process_comparison_completes(2) [OF f r] by auto
  have 3: "get_report sample_db 1 = Some uploaded_report
   \<and> r_status uploaded_report = ''uploaded''
   \<and> comparisons sample_db = []
   \<and> map c_status (comparisons (snd (create_comparison sample_db 7 1 1 2 ''internal_vs_sec'')))
       = [''pending'']"
    by (simp add: create_comparison_def get_report_def sample_db_def uploaded_report_def
        processed_report_def embedded_report_def Let_def)
  have 4: "r_status half_processed_report = ''processing''"
    by (simp add: half_processed_report_def)
  from 1 2 3 4 f(2) show ?thesis by simp
qed

text \<open>
  Claim C3, as stated, fails: the source report of the sample comparison has no
  embeddings, and the similarity score stored is 0.0, not \<open>None\<close>.
\<close>

theorem missing_embedding_counterexample:
  "\<not> has_embeddings (r_embeddings processed_report)
   \<and> map_option similarity_score
        (get_comparison (snd (process_comparison sample_services comparison_db 7)) 7)
      = Some (Some (Fin 0))"
proof -
  have e: "embedding_similarity processed_report embedded_report = Fin 0"
    by (simp add: embedding_similarity_def has_embeddings_def processed_report_def)
  from process_comparison_completes(2) [OF sample_facts sample_holistic_call] e
  show ?thesis by (auto simp: has_embeddings_def processed_report_def)
qed

text \<open>
  Claim C3, amended. When a comparison of two reports with text is processed and one of
  the two reports has no embedding vector, the similarity score that is stored is 0.0, not
  \<open>None\<close>.
\<close>

theorem similarity_score_zero_without_embeddings:
  assumes "get_comparison db i = Some c"
    and "get_report db (source_report_id c) = Some s"
    and "get_report db (target_report_id c) = Some t"
    and "truthy (r_raw_text s)" and "truthy (r_raw_text t)"
  shows "map_option similarity_score (get_comparison (snd (process_comparison sv db i)) i)
           = Some (Some (embedding_similarity s t))
         \<and> (\<not> has_embeddings (r_embeddings s) \<or> \<not> has_embeddings (r_embeddings t)
              \<longrightarrow> embedding_similarity s t = Fin 0)"
proof (intro conjI impI)
  have p: "get_comparison (set_comparison db i (\<lambda>c. c\<lparr>c_status := ''processing''\<rparr>)) i
             = Some (c\<lparr>c_status := ''processing''\<rparr>)"
    using assms(1) by (simp add: get_comparison_set_comparison)
  show "map_option similarity_score (get_comparison (snd (process_comparison sv db i)) i)
           = Some (Some (embedding_similarity s t))"
    unfolding process_comparison_ready [OF assms, of sv] by (rule similarity_score_stored [OF p])
next
  assume "\<not> has_embeddings (r_embeddings s) \<or> \<not> has_embeddings (r_embeddings t)"
  then show "embedding_similarity s t = Fin 0" by (auto simp: embedding_similarity_def)
qed

theorem similarity_score_zero_without_embeddings_witness:
  "map_option similarity_score
     (get_comparison (snd (process_comparison sample_services comparison_db 7)) 7)
   = Some (Some (embedding_similarity processed_report embedded_report))
   \<and> embedding_similarity processed_report embedded_report = Fin 0"
proof -
  have "\<not> has_embeddings (r_embeddings processed_report)"
    by (simp add: has_embeddings_def processed_report_def)
  with similarity_score_zero_without_embeddings [OF sample_facts, of sample_services]
  show ?thesis by blast
qed

text \<open>
  Claim C4, as stated, fails: with the collaborator unreachable the sample comparison
  ends in status \<open>completed\<close>, with an empty dictionary of key differences.
\<close>

theorem failed_holistic_call_counterexample:
  "language_model sample_services 0 (take 2000 (the (r_raw_text processed_report)))
       (take 2000 (the (r_raw_text embedded_report))) = CallError ''timeout''
   \<and> map_option c_status
        (get_comparison (snd (process_comparison sample_services comparison_db 7)) 7)
      = Some ''completed''
   \<and> map_option key_differences
        (get_comparison (snd (process_comparison sample_services comparison_db 7)) 7)
      = Some (Some (JDict []))"
proof -
  from process_comparison_completes(2) [OF sample_facts sample_holistic_call]
  show ?thesis
    by (auto simp: dict_get_def sample_services_def unreachable_model_def)
qed

text \<open>
  Claim C4, amended. When the holistic call fails, by an error of the collaborator or by an
  answer that does not parse, \<open>compare_reports\<close> returns the dictionary
  \<open>{'error': 'Failed to compare reports: ...'}\<close>, the comparison ends in status
  \<open>completed\<close>, and key differences, risk alignment, compliance gaps and recommendations
  are each stored as the empty dictionary.
\<close>

theorem failed_holistic_call_still_completes:
  assumes "get_comparison db i = Some c"
    and "get_report db (source_report_id c) = Some s"
    and "get_report db (target_report_id c) = Some t"
    and "truthy (r_raw_text s)" and "truthy (r_raw_text t)"
    and "language_model sv 0 (take 2000 (the (r_raw_text s))) (take 2000 (the (r_raw_text t)))
           = CallError m
         \<or> language_model sv 0 (take 2000 (the (r_raw_text s))) (take 2000 (the (r_raw_text t)))
           = Unparseable m"
  shows "(\<exists>out. fst (process_comparison sv db i) = Inr out
            \<and> o_status out = ''completed''
            \<and> o_results out = JDict [(''error'', JStr (''Failed to compare reports: '' @ m))])
         \<and> (\<exists>c'. get_comparison (snd (process_comparison sv db i)) i = Some c'
            \<and> c_status c' = ''completed''
            \<and> key_differences c' = Some (JDict [])
            \<and> risk_alignment c' = Some (JDict [])
            \<and> compliance_gaps c' = Some (JDict [])
            \<and> recommendations c' = Some (JDict []))"
proof -
  have f: "compare_reports (language_model sv) 0 (the (r_raw_text s)) (the (r_raw_text t))
             = JDict [(''error'', JStr (''Failed to compare reports: '' @ m))]"
    using assms(6) by (rule compare_reports_failure)
  from process_comparison_completes(1) [OF assms(1-5) f]
  have 1: "\<exists>out. fst (process_comparison sv db i) = Inr out
            \<and> o_status out = ''completed''
            \<and> o_results out = JDict [(''error'', JStr (''Failed to compare reports: '' @ m))]"
    by simp
  from process_comparison_completes(2) [OF assms(1-5) f]
  have 2: "\<exists>c'. get_comparison (snd (process_comparison sv db i)) i = Some c'
            \<and> c_status c' = ''completed''
            \<and> key_differences c' = Some (JDict [])
            \<and> risk_alignment c' = Some (JDict [])
            \<and> compliance_gaps c' = Some (JDict [])
            \<and> recommendations c' = Some (JDict [])"
    by (auto simp: dict_get_def)
  from 1 2 show ?thesis by simp
qed

theorem failed_holistic_call_still_completes_witness:
  "(\<exists>out. fst (process_comparison sample_services comparison_db 7) = Inr out
      \<and> o_status out = ''completed''
      \<and> o_results out = JDict [(''error'', JStr (''Failed to compare reports: '' @ ''timeout''))])
   \<and> (\<exists>c'. get_comparison (snd (process_comparison sample_services comparison_db 7)) 7 = Some c'
      \<and> c_status c' = ''completed''
      \<and> key_differences c' = Some (JDict [])
      \<and> risk_alignment c' = Some (JDict [])
      \<and> compliance_gaps c' = Some (JDict [])
      \<and> recommendations c' = Some (JDict []))"
proof -
  have "language_model sample_services 0 (take 2000 (the (r_raw_text processed_report)))
          (take 2000 (the (r_raw_text embedded_report))) = CallError ''timeout''
        \<or> language_model sample_services 0 (take 2000 (the (r_raw_text processed_report)))
          (take 2000 (the (r_raw_text embedded_report))) = Unparseable ''timeout''"
    by (simp add: sample_services_def unreachable_model_def)
  from failed_holistic_call_still_completes [OF sample_facts this] show ?thesis .
qed

section \<open>Properties of the section analysis\<close>

lemma analyze_loop_step:
  "analyze_loop model k src tgt acc (sec # rest) =
     (if truthy (extract_section src sec) \<and> truthy (extract_section tgt sec)
      then analyze_loop model (Suc k) src tgt
             (acc(sec \<mapsto> compare_reports model k (the (extract_section src sec))
                                  (the (extract_section tgt sec)))) rest
      else analyze_loop model k src tgt acc rest)"
  by (simp add: truthy_def split: option.splits)

lemma analyze_loop_entries:
  "\<exists>j\<ge>k. analyze_loop model k src tgt acc secs name =
     (if name \<in> set secs \<and> truthy (extract_section src name) \<and> truthy (extract_section tgt name)
      then Some (compare_reports model j (the (extract_section src name))
                   (the (extract_section tgt name)))
      else acc name)"
proof (induction secs arbitrary: k acc)
  case Nil
  then show ?case by auto
next
  case (Cons sec rest)
  show ?case
  proof (cases "truthy (extract_section src sec) \<and> truthy (extract_section tgt sec)")
    case False
    from Cons.IH [of k acc] obtain j where "j \<ge> k" and
      "analyze_loop model k src tgt acc rest name =
        (if name \<in> set rest \<and> truthy (extract_section src name) \<and> truthy (extract_section tgt name)
         then Some (compare_reports model j (the (extract_section src name))
                   (the (extract_section tgt name)))
         else acc name)" by blast
    with False show ?thesis
      unfolding analyze_loop_step by (intro exI [of _ j]) auto
  next
    case True
    let ?acc = "acc(sec \<mapsto> compare_reports model k (the (extract_section src sec))
                                  (the (extract_section tgt sec)))"
    from Cons.IH [of "Suc k" ?acc] obtain j where j: "j \<ge> Suc k" and
      r: "analyze_loop model (Suc k) src tgt ?acc rest name =
        (if name \<in> set rest \<and> truthy (extract_section src name) \<and> truthy (extract_section tgt name)
         then Some (compare_reports model j (the (extract_section src name))
                   (the (extract_section tgt name)))
         else ?acc name)" by blast
    show ?thesis
    proof (cases "name \<in> set rest \<and> truthy (extract_section src name) \<and> truthy (extract_section tgt name)")
      case t: True
      with True r j show ?thesis
        unfolding analyze_loop_step by (intro exI [of _ j]) auto
    next
      case f: False
      with True r show ?thesis
        unfolding analyze_loop_step by (intro exI [of _ k]) auto
    qed
  qed
qed

lemma analyze_sections_entries:
  "\<exists>j\<ge>k. analyze_sections model k src tgt name =
     (if name \<in> set sections \<and> truthy (extract_section src name) \<and> truthy (extract_section tgt name)
      then Some (compare_reports model j (the (extract_section src name))
                   (the (extract_section tgt name)))
      else None)"
  using analyze_loop_entries [of k model src tgt Map.empty sections name]
  by (simp add: analyze_sections_def)

text \<open>
  Claim C7, as stated, fails: the sub-comparison of the section Executive Summary of the
  two sample reports fails, and the section has an entry all the same, the error
  dictionary.
\<close>

theorem sub_comparison_failure_counterexample:
  "extract_section (the (r_raw_text processed_report)) ''Executive Summary'' = Some ''revenue grew''
   \<and> extract_section (the (r_raw_text embedded_report)) ''Executive Summary'' = Some ''revenue fell''
   \<and> unreachable_model 1 (take 2000 ''revenue grew'') (take 2000 ''revenue fell'')
       = CallError ''timeout''
   \<and> analyze_sections unreachable_model 1 (the (r_raw_text processed_report))
        (the (r_raw_text embedded_report)) ''Executive Summary''
       = Some (JDict [(''error'', JStr ''Failed to compare reports: timeout'')])"
  by code_simp

text \<open>
  Claim C7, amended. When a comparison completes, its section comparisons hold an entry for
  a name exactly if the name is in the fixed list and extraction gave a non-empty excerpt
  in both documents. Every entry is what \<open>compare_reports\<close> returned for the two
  excerpts in one of the calls after the holistic one; when that call failed, the entry is
  the dictionary \<open>{'error': 'Failed to compare reports: ...'}\<close>: it is not left out, and
  the comparison completes all the same.
\<close>

theorem section_comparisons_entries:
  assumes "get_comparison db i = Some c"
    and "get_report db (source_report_id c) = Some s"
    and "get_report db (target_report_id c) = Some t"
    and "truthy (r_raw_text s)" and "truthy (r_raw_text t)"
    and "compare_reports (language_model sv) 0 (the (r_raw_text s)) (the (r_raw_text t)) = JDict d"
  shows "\<exists>c' m. get_comparison (snd (process_comparison sv db i)) i = Some c'
           \<and> c_status c' = ''completed''
           \<and> section_comparisons c' = Some m
           \<and> (\<forall>name. (m name \<noteq> None)
                 = (name \<in> set sections
                    \<and> truthy (extract_section (the (r_raw_text s)) name)
                    \<and> truthy (extract_section (the (r_raw_text t)) name)))
           \<and> (\<forall>name v. m name = Some v \<longrightarrow>
                 (\<exists>k\<ge>1. v = compare_reports (language_model sv) k
                                (the (extract_section (the (r_raw_text s)) name))
                                (the (extract_section (the (r_raw_text t)) name))
                    \<and> (\<forall>e. language_model sv k
                              (take 2000 (the (extract_section (the (r_raw_text s)) name)))
                              (take 2000 (the (extract_section (the (r_raw_text t)) name)))
                             \<in> {CallError e, Unparseable e}
                           \<longrightarrow> v = JDict [(''error'', JStr (''Failed to compare reports: '' @ e))])))"
proof -
  let ?m = "analyze_sections (language_model sv) 1 (the (r_raw_text s)) (the (r_raw_text t))"
  from process_comparison_completes(2) [OF assms]
  obtain c' where c': "get_comparison (snd (process_comparison sv db i)) i = Some c'"
    "c_status c' = ''completed''" "section_comparisons c' = Some ?m" by blast
  have dom: "(?m name \<noteq> None)
      = (name \<in> set sections \<and> truthy (extract_section (the (r_raw_text s)) name)
         \<and> truthy (extract_section (the (r_raw_text t)) name))" for name
    using analyze_sections_entries [of 1 "language_model sv" "the (r_raw_text s)" "the (r_raw_text t)" name]
    by (auto split: if_splits)
  have val: "\<exists>k\<ge>1. v = compare_reports (language_model sv) k
                                (the (extract_section (the (r_raw_text s)) name))
                                (the (extract_section (the (r_raw_text t)) name))
                    \<and> (\<forall>e. language_model sv k
                              (take 2000 (the (extract_section (the (r_raw_text s)) name)))
                              (take 2000 (the (extract_section (the (r_raw_text t)) name)))
                             \<in> {CallError e, Unparseable e}
                           \<longrightarrow> v = JDict [(''error'', JStr (''Failed to compare reports: '' @ e))])"
    if "?m name = Some v" for name v
  proof -
    from analyze_sections_entries [of 1 "language_model sv" "the (r_raw_text s)" "the (r_raw_text t)" name] that
    obtain k where "k \<ge> 1" and "v = compare_reports (language_model sv) k
                                (the (extract_section (the (r_raw_text s)) name))
                                (the (extract_section (the (r_raw_text t)) name))"
      by (auto split: if_splits)
    then show ?thesis
      by (intro exI [of _ k]) (auto simp: compare_reports_def)
  qed
  from c' dom val show ?thesis by blast
qed

theorem section_comparisons_entries_witness:
  "\<exists>c' m. get_comparison (snd (process_comparison sample_services comparison_db 7)) 7 = Some c'
      \<and> c_status c' = ''completed''
      \<and> section_comparisons c' = Some m
      \<and> m ''Executive Summary'' = Some (JDict [(''error'', JStr ''Failed to compare reports: timeout'')])
      \<and> m ''Key Findings'' = None"
proof -
  let ?s = "the (r_raw_text processed_report)" and ?t = "the (r_raw_text embedded_report)"
  have x: "extract_section ?s ''Executive Summary'' = Some ''revenue grew''"
     "extract_section ?t ''Executive Summary'' = Some ''revenue fell''"
     "extract_section ?s ''Key Findings'' = None"
    by code_simp+
  have mem: "''Executive Summary'' \<in> set sections" by (simp add: sections_def)
  from section_comparisons_entries [OF sample_facts sample_holistic_call]
  obtain c' m where c': "get_comparison (snd (process_comparison sample_services comparison_db 7)) 7 = Some c'"
    "c_status c' = ''completed''" "section_comparisons c' = Some m"
    and dom: "\<And>name. (m name \<noteq> None) = (name \<in> set sections \<and> truthy (extract_section ?s name)
                    \<and> truthy (extract_section ?t name))"
    and val: "\<And>name v. m name = Some v \<Longrightarrow> (\<exists>k\<ge>1. v = compare_reports (language_model sample_services) k
                                (the (extract_section ?s name)) (the (extract_section ?t name)))"
    by blast
  have kf: "m ''Key Findings'' = None"
    using dom [of "''Key Findings''"] x(3) by (simp add: truthy_def)
  have "m ''Executive Summary'' \<noteq> None"
    using dom [of "''Executive Summary''"] x(1,2) mem by (simp add: truthy_def)
  then obtain v where v: "m ''Executive Summary'' = Some v" by blast
  from val [OF v] have "v = JDict [(''error'', JStr ''Failed to compare reports: timeout'')]"
    by (auto simp: compare_reports_def sample_services_def unreachable_model_def)
  with v kf c' show ?thesis by blast
qed

end
